theory Spec2Isabelle
  imports Complex_Main "HOL-Library.Sublist"
begin

section \<open>Contact analysis notebooks: data model\<close>

text \<open>
  The notebooks call the analysis library on a loaded universe. A trajectory frame
  (a timestep) carries its frame index and the coordinates of every atom; a universe owns
  its atoms (each with an atom name and a residue name) and a trajectory; an atom group
  refers to its universe and lists atom indices. The position
  type \<open>'p\<close> and the point distance \<open>d\<close> are parameters of the model, the distance values
  are taken from a linear order.
\<close>

record 'p timestep =
  frame :: int
  ts_positions :: "nat \<Rightarrow> 'p"

record atom =
  name :: string
  resname :: string

record 'p universe =
  uid :: nat
  atoms :: "atom list"
  trajectory :: "'p timestep list"

record atomgroup =
  universe :: nat
  ix :: "nat list"

text \<open>
  Iterating over \<open>u.trajectory\<close> loads one frame after the other into the universe, and
  \<open>group.positions\<close> reads the frame that is current in the universe the group belongs to.
  The store maps each universe (by its identity) to its current timestep.
\<close>

type_synonym 'p store = "nat \<Rightarrow> 'p timestep"

text \<open>
  Modelled from the spec: \<open>AtomGroup.positions\<close> of the external library is missing; it is
  the coordinates, in the current trajectory frame (a snapshot of atomic coordinates), of
  the atoms of the group, in the order of the group.
\<close>

definition positions :: "'p store \<Rightarrow> atomgroup \<Rightarrow> 'p list" where
  "positions st g = map (ts_positions (st (universe g))) (ix g)"

text \<open>
  Modelled from the spec: \<open>contacts.distance_array\<close> of the external library is missing; it
  is the pairwise-distance function taking two coordinate arrays and returning a distance
  matrix, one row per point of the first array and one column per point of the second.
\<close>

definition distance_array :: "('p \<Rightarrow> 'p \<Rightarrow> 'a) \<Rightarrow> 'p list \<Rightarrow> 'p list \<Rightarrow> 'a list list" where
  "distance_array d ps qs = map (\<lambda>p. map (d p) qs) ps"

text \<open>
  Modelled from the spec: \<open>contacts.contact_matrix\<close> of the external library is missing; it is
  the thresholding function converting a distance matrix and a cutoff radius into a boolean
  contact matrix. The comparison is the one the notebook documents at the call
  (\<^verbatim>\<open># determine which distances <= radius\<close>).
\<close>

definition contact_matrix :: "('a::linorder) list list \<Rightarrow> 'a \<Rightarrow> bool list list" where
  "contact_matrix dm radius = map (map (\<lambda>x. x \<le> radius)) dm"

text \<open>
  Modelled from the spec: the summation \<open>.sum()\<close> of the external array library is missing;
  on a boolean matrix it adds up all the entries, \<open>True\<close> counting as one.
\<close>

definition matrix_sum :: "bool list list \<Rightarrow> int" where
  "matrix_sum m = sum_list (map of_bool (concat m))"

text \<open>
  Modelled from the spec: \<open>np.array\<close> of the external array library is missing; it turns
  the list of rows into the numeric table the function returns. As in that library, an
  empty list gives a one-dimensional array of shape \<open>(0,)\<close>, rows of one common length give
  a two-dimensional array, and rows of different lengths give a one-dimensional array of
  row objects.
\<close>

record ndarray =
  shape :: "nat list"
  entries :: "int list list"

definition np_array :: "int list list \<Rightarrow> ndarray" where
  "np_array xs =
     (if xs = [] then \<lparr>shape = [0], entries = []\<rparr>
      else if list_all (\<lambda>r. length r = length (hd xs)) xs
      then \<lparr>shape = [length xs, length (hd xs)], entries = xs\<rparr>
      else \<lparr>shape = [length xs], entries = xs\<rparr>)"

section \<open>Number of contacts within a cutoff\<close>

text \<open>
  \<^verbatim>\<open>
  def contacts_within_cutoff(u, group_a, group_b, radius=4.5):
      timeseries = []
      for ts in u.trajectory:
          # calculate distances between group_a and group_b
          dist = contacts.distance_array(group_a.positions, group_b.positions)
          # determine which distances <= radius
          n_contacts = contacts.contact_matrix(dist, radius).sum()
          timeseries.append([ts.frame, n_contacts])
      return np.array(timeseries)
  \<close>
  The loop threads the store (the frame loaded into \<open>u\<close>) and the list \<open>timeseries\<close>.
\<close>

fun trajectory_loop ::
  "('p \<Rightarrow> 'p \<Rightarrow> 'a::linorder) \<Rightarrow> nat \<Rightarrow> atomgroup \<Rightarrow> atomgroup \<Rightarrow> 'a \<Rightarrow>
   'p store \<Rightarrow> 'p timestep list \<Rightarrow> int list list \<Rightarrow> int list list" where
  "trajectory_loop d u group_a group_b radius st [] timeseries = timeseries"
| "trajectory_loop d u group_a group_b radius st (ts # rest) timeseries =
     (let st' = st(u := ts);
          dist = distance_array d (positions st' group_a) (positions st' group_b);
          n_contacts = matrix_sum (contact_matrix dist radius)
      in trajectory_loop d u group_a group_b radius st' rest
           (timeseries @ [[frame ts, n_contacts]]))"

definition contacts_within_cutoff ::
  "('p \<Rightarrow> 'p \<Rightarrow> 'a::linorder) \<Rightarrow> 'p store \<Rightarrow> 'p universe \<Rightarrow> atomgroup \<Rightarrow> atomgroup \<Rightarrow> 'a \<Rightarrow>
   ndarray" where
  "contacts_within_cutoff d st u group_a group_b radius =
     np_array (trajectory_loop d (uid u) group_a group_b radius st (trajectory u) [])"

text \<open>The contact count of one frame, as the body of the loop computes it.\<close>

definition n_contacts_at ::
  "('p \<Rightarrow> 'p \<Rightarrow> 'a::linorder) \<Rightarrow> 'p store \<Rightarrow> atomgroup \<Rightarrow> atomgroup \<Rightarrow> 'a \<Rightarrow> int" where
  "n_contacts_at d st group_a group_b radius =
     matrix_sum (contact_matrix
       (distance_array d (positions st group_a) (positions st group_b)) radius)"

text \<open>
  The glossary's reading of a contact, used for comparison with the code: the number of
  pairs, one point from each coordinate array, whose distance is strictly below the radius.
\<close>

definition spec_contact_count :: "('p \<Rightarrow> 'p \<Rightarrow> 'a::linorder) \<Rightarrow> 'p list \<Rightarrow> 'p list \<Rightarrow> 'a \<Rightarrow> int" where
  "spec_contact_count d ps qs radius =
     int (length (filter (\<lambda>(p, q). d p q < radius) (List.product ps qs)))"

text \<open>The same count with the comparison of the thresholding function: distance at most the radius.\<close>

definition contact_count :: "('p \<Rightarrow> 'p \<Rightarrow> 'a::linorder) \<Rightarrow> 'p list \<Rightarrow> 'p list \<Rightarrow> 'a \<Rightarrow> int" where
  "contact_count d ps qs radius =
     int (length (filter (\<lambda>(p, q). d p q \<le> radius) (List.product ps qs)))"

section \<open>A custom scoring function\<close>

text \<open>
  \<^verbatim>\<open>
  def fraction_contacts_between(r, r0, radius=3.4, min_radius=2.5):
      is_in_contact = (r < radius) & (r > min_radius)  # array of bools
      fraction = is_in_contact.sum()/r.size
      return fraction
  \<close>
  \<open>r\<close> is an array of distances, here the list of its entries.
\<close>

text \<open>
  Modelled from the spec: the arithmetic of the external array library is missing. The sum
  of a boolean array is an integer and \<open>/\<close> is the true division of that library: a zero
  divisor does not raise, it gives \<open>nan\<close> for \<open>0/0\<close> and a signed infinity otherwise.
  Quotients are kept as exact rationals.
\<close>

datatype npfloat = Finite rat | NaN | PosInf | NegInf

definition true_divide :: "int \<Rightarrow> int \<Rightarrow> npfloat" where
  "true_divide a b =
     (if b = 0 then (if a = 0 then NaN else if 0 < a then PosInf else NegInf)
      else Finite (of_int a / of_int b))"

definition array_sum :: "bool list \<Rightarrow> int" where
  "array_sum bs = sum_list (map of_bool bs)"

definition fraction_contacts_between :: "('a::linorder) list \<Rightarrow> 'b \<Rightarrow> 'a \<Rightarrow> 'a \<Rightarrow> npfloat" where
  "fraction_contacts_between r r0 radius min_radius =
     (let is_in_contact = map (\<lambda>(x, y). x \<and> y)
            (zip (map (\<lambda>x. x < radius) r) (map (\<lambda>x. x > min_radius) r));
          fraction = true_divide (array_sum is_in_contact) (int (length r))
      in fraction)"

section \<open>The loop as a transition system\<close>

text \<open>
  One iteration of the \<open>for\<close> loop as a transition on the state of the loop: the store, the
  frames still to come and the list \<open>timeseries\<close>. The only transition takes the first of the
  remaining frames, loads it and appends its row.
\<close>

type_synonym 'p loop_state = "'p store \<times> 'p timestep list \<times> int list list"

inductive loop_step ::
  "('p \<Rightarrow> 'p \<Rightarrow> 'a::linorder) \<Rightarrow> nat \<Rightarrow> atomgroup \<Rightarrow> atomgroup \<Rightarrow> 'a \<Rightarrow>
   'p loop_state \<Rightarrow> 'p loop_state \<Rightarrow> bool"
  for d :: "'p \<Rightarrow> 'p \<Rightarrow> 'a::linorder" and u :: nat and group_a :: atomgroup
    and group_b :: atomgroup and radius :: 'a
where
  iteration:
    "st' = st(u := ts) \<Longrightarrow>
     dm = distance_array d (positions st' group_a) (positions st' group_b) \<Longrightarrow>
     n_contacts = matrix_sum (contact_matrix dm radius) \<Longrightarrow>
     loop_step d u group_a group_b radius
       (st, ts # rest, timeseries) (st', rest, timeseries @ [[frame ts, n_contacts]])"

text \<open>
  A run of the function: iterations from the initial state until no frame is left, then
  the \<open>return\<close> of the array built from \<open>timeseries\<close>.
\<close>

inductive loop_run ::
  "('p \<Rightarrow> 'p \<Rightarrow> 'a::linorder) \<Rightarrow> nat \<Rightarrow> atomgroup \<Rightarrow> atomgroup \<Rightarrow> 'a \<Rightarrow>
   'p loop_state \<Rightarrow> ndarray \<Rightarrow> bool"
  for d :: "'p \<Rightarrow> 'p \<Rightarrow> 'a::linorder" and u :: nat and group_a :: atomgroup
    and group_b :: atomgroup and radius :: 'a
where
  return: "loop_run d u group_a group_b radius (st, [], timeseries) (np_array timeseries)"
| iterate:
    "loop_step d u group_a group_b radius s s' \<Longrightarrow>
     loop_run d u group_a group_b radius s' result \<Longrightarrow>
     loop_run d u group_a group_b radius s result"

definition contacts_within_cutoff_run ::
  "('p \<Rightarrow> 'p \<Rightarrow> 'a::linorder) \<Rightarrow> 'p store \<Rightarrow> 'p universe \<Rightarrow> atomgroup \<Rightarrow> atomgroup \<Rightarrow> 'a \<Rightarrow>
   ndarray \<Rightarrow> bool" where
  "contacts_within_cutoff_run d st u group_a group_b radius result =
     loop_run d (uid u) group_a group_b radius (st, trajectory u, []) result"

section \<open>Failures of the library calls\<close>

text \<open>
  Every operation the two functions perform on arguments of the types they are written for
  is a call into the libraries: loading the next frame, reading the positions of a group,
  the distance and contact matrices, sums, comparisons, the division and the construction of
  the array. Here each call may raise an exception of the library, a value of type \<open>'e\<close>, and
  an exception ends the function at once (there is no \<open>try\<close> in the notebooks).
\<close>

record ('e, 'p, 'a) library =
  lib_next :: "'p timestep \<Rightarrow> 'e + 'p timestep"
  lib_positions :: "'p store \<Rightarrow> atomgroup \<Rightarrow> 'e + 'p list"
  lib_distance_array :: "'p list \<Rightarrow> 'p list \<Rightarrow> 'e + 'a list list"
  lib_contact_matrix :: "'a list list \<Rightarrow> 'a \<Rightarrow> 'e + bool list list"
  lib_sum :: "bool list list \<Rightarrow> 'e + int"
  lib_array :: "int list list \<Rightarrow> 'e + ndarray"

record ('e, 'a) array_library =
  arr_less :: "'a list \<Rightarrow> 'a \<Rightarrow> 'e + bool list"
  arr_greater :: "'a list \<Rightarrow> 'a \<Rightarrow> 'e + bool list"
  arr_and :: "bool list \<Rightarrow> bool list \<Rightarrow> 'e + bool list"
  arr_sum :: "bool list \<Rightarrow> 'e + int"
  arr_size :: "'a list \<Rightarrow> 'e + int"
  arr_divide :: "int \<Rightarrow> int \<Rightarrow> 'e + npfloat"

text \<open>
  An exception that ends a function is one a library call raised, or the \<open>TypeError\<close> the
  interpreter raises when an operator of the function body is applied to operands that do
  not support it.
\<close>

datatype 'e failure = LibraryError 'e | TypeError

text \<open>
  The calls a run makes, each with its arguments. A run is recorded as its outcome together
  with the calls it made, in order, each with the exception it raised, if any.
\<close>

datatype ('p, 'a) library_call =
    NextFrame "'p timestep"
  | Positions "'p store" atomgroup
  | DistanceArray "'p list" "'p list"
  | ContactMatrix "'a list list" 'a
  | MatrixSum "bool list list"
  | NpArray "int list list"

datatype 'a array_call =
    Less "'a list" 'a
  | Greater "'a list" 'a
  | BitAnd "bool list" "bool list"
  | ArraySum "bool list"
  | Size "'a list"
  | TrueDivide int int

text \<open>
  \<open>failed\<close> ends a run at a call that raised; \<open>after\<close> puts a call that returned in front of
  the rest of the run.
\<close>

definition failed :: "'c \<Rightarrow> 'e \<Rightarrow> ('e failure + 'x) \<times> ('c \<times> 'e option) list" where
  "failed c e = (Inl (LibraryError e), [(c, Some e)])"

definition after ::
  "'c \<Rightarrow> ('e failure + 'x) \<times> ('c \<times> 'e option) list \<Rightarrow>
   ('e failure + 'x) \<times> ('c \<times> 'e option) list" where
  "after c k = (fst k, (c, None) # snd k)"

text \<open>
  The loop of \<open>contacts_within_cutoff\<close> once more, statement by statement, with every
  library call of the body recorded and its exception, if any, ending the run.
\<close>

fun trajectory_loop_traced ::
  "('e, 'p, 'a) library \<Rightarrow> nat \<Rightarrow> atomgroup \<Rightarrow> atomgroup \<Rightarrow> 'a \<Rightarrow>
   'p store \<Rightarrow> 'p timestep list \<Rightarrow> int list list \<Rightarrow>
   ('e failure + int list list) \<times> (('p, 'a) library_call \<times> 'e option) list" where
  "trajectory_loop_traced lib u group_a group_b radius st [] timeseries = (Inr timeseries, [])"
| "trajectory_loop_traced lib u group_a group_b radius st (t # rest) timeseries =
     (case lib_next lib t of Inl e \<Rightarrow> failed (NextFrame t) e | Inr ts \<Rightarrow>
      after (NextFrame t)
     (let st' = st(u := ts) in
      case lib_positions lib st' group_a of
        Inl e \<Rightarrow> failed (Positions st' group_a) e | Inr pa \<Rightarrow>
      after (Positions st' group_a)
     (case lib_positions lib st' group_b of
        Inl e \<Rightarrow> failed (Positions st' group_b) e | Inr pb \<Rightarrow>
      after (Positions st' group_b)
     (case lib_distance_array lib pa pb of
        Inl e \<Rightarrow> failed (DistanceArray pa pb) e | Inr dm \<Rightarrow>
      after (DistanceArray pa pb)
     (case lib_contact_matrix lib dm radius of
        Inl e \<Rightarrow> failed (ContactMatrix dm radius) e | Inr cm \<Rightarrow>
      after (ContactMatrix dm radius)
     (case lib_sum lib cm of
        Inl e \<Rightarrow> failed (MatrixSum cm) e | Inr n_contacts \<Rightarrow>
      after (MatrixSum cm)
     (trajectory_loop_traced lib u group_a group_b radius st' rest
        (timeseries @ [[frame ts, n_contacts]]))))))))"

definition contacts_within_cutoff_traced ::
  "('e, 'p, 'a) library \<Rightarrow> 'p store \<Rightarrow> 'p universe \<Rightarrow> atomgroup \<Rightarrow> atomgroup \<Rightarrow> 'a \<Rightarrow>
   ('e failure + ndarray) \<times> (('p, 'a) library_call \<times> 'e option) list" where
  "contacts_within_cutoff_traced lib st u group_a group_b radius =
     (case trajectory_loop_traced lib (uid u) group_a group_b radius st (trajectory u) [] of
        (Inl f, calls) \<Rightarrow> (Inl f, calls)
      | (Inr timeseries, calls) \<Rightarrow>
          (case lib_array lib timeseries of
             Inl e \<Rightarrow> (Inl (LibraryError e), calls @ [(NpArray timeseries, Some e)])
           | Inr a \<Rightarrow> (Inr a, calls @ [(NpArray timeseries, None)])))"

text \<open>What the library answers to a call: the exception it raises, if any.\<close>

fun library_answer :: "('e, 'p, 'a) library \<Rightarrow> ('p, 'a) library_call \<Rightarrow> 'e option" where
  "library_answer lib (NextFrame t) = (case lib_next lib t of Inl e \<Rightarrow> Some e | Inr v \<Rightarrow> None)"
| "library_answer lib (Positions st g) =
     (case lib_positions lib st g of Inl e \<Rightarrow> Some e | Inr v \<Rightarrow> None)"
| "library_answer lib (DistanceArray ps qs) =
     (case lib_distance_array lib ps qs of Inl e \<Rightarrow> Some e | Inr v \<Rightarrow> None)"
| "library_answer lib (ContactMatrix dm radius) =
     (case lib_contact_matrix lib dm radius of Inl e \<Rightarrow> Some e | Inr v \<Rightarrow> None)"
| "library_answer lib (MatrixSum m) = (case lib_sum lib m of Inl e \<Rightarrow> Some e | Inr v \<Rightarrow> None)"
| "library_answer lib (NpArray xs) = (case lib_array lib xs of Inl e \<Rightarrow> Some e | Inr v \<Rightarrow> None)"

text \<open>
  The argument \<open>r\<close> as the interpreter receives it: an array of the array library (what the
  analysis class passes), or a plain list of numbers. On an array, \<open><\<close>, \<open>>\<close>, \<open>&\<close>, \<open>.sum()\<close>,
  \<open>.size\<close> and \<open>/\<close> are operations of the array library. A plain list does not support \<open><\<close>
  with a number: the interpreter raises \<open>TypeError\<close> at \<open>r < radius\<close>, the first operation
  of the body, before any call into the library.
\<close>

datatype 'a argument = Array "'a list" | Sequence "'a list"

definition fraction_contacts_between_traced ::
  "('e, 'a) array_library \<Rightarrow> 'a argument \<Rightarrow> 'b \<Rightarrow> 'a \<Rightarrow> 'a \<Rightarrow>
   ('e failure + npfloat) \<times> ('a array_call \<times> 'e option) list" where
  "fraction_contacts_between_traced lib r r0 radius min_radius =
     (case r of
        Sequence xs \<Rightarrow> (Inl TypeError, [])
      | Array a \<Rightarrow>
     (case arr_less lib a radius of Inl e \<Rightarrow> failed (Less a radius) e | Inr lt \<Rightarrow>
      after (Less a radius)
     (case arr_greater lib a min_radius of
        Inl e \<Rightarrow> failed (Greater a min_radius) e | Inr gt \<Rightarrow>
      after (Greater a min_radius)
     (case arr_and lib lt gt of Inl e \<Rightarrow> failed (BitAnd lt gt) e | Inr is_in_contact \<Rightarrow>
      after (BitAnd lt gt)
     (case arr_sum lib is_in_contact of
        Inl e \<Rightarrow> failed (ArraySum is_in_contact) e | Inr n_in_contact \<Rightarrow>
      after (ArraySum is_in_contact)
     (case arr_size lib a of Inl e \<Rightarrow> failed (Size a) e | Inr n \<Rightarrow>
      after (Size a)
     (case arr_divide lib n_in_contact n of
        Inl e \<Rightarrow> failed (TrueDivide n_in_contact n) e
      | Inr fraction \<Rightarrow> (Inr fraction, [(TrueDivide n_in_contact n, None)]))))))))"

fun array_answer :: "('e, 'a) array_library \<Rightarrow> 'a array_call \<Rightarrow> 'e option" where
  "array_answer lib (Less a x) = (case arr_less lib a x of Inl e \<Rightarrow> Some e | Inr v \<Rightarrow> None)"
| "array_answer lib (Greater a x) =
     (case arr_greater lib a x of Inl e \<Rightarrow> Some e | Inr v \<Rightarrow> None)"
| "array_answer lib (BitAnd xs ys) = (case arr_and lib xs ys of Inl e \<Rightarrow> Some e | Inr v \<Rightarrow> None)"
| "array_answer lib (ArraySum bs) = (case arr_sum lib bs of Inl e \<Rightarrow> Some e | Inr v \<Rightarrow> None)"
| "array_answer lib (Size a) = (case arr_size lib a of Inl e \<Rightarrow> Some e | Inr v \<Rightarrow> None)"
| "array_answer lib (TrueDivide a b) =
     (case arr_divide lib a b of Inl e \<Rightarrow> Some e | Inr v \<Rightarrow> None)"

text \<open>The library whose calls never fail and compute what the model above says.\<close>

definition total_library :: "('p \<Rightarrow> 'p \<Rightarrow> 'a::linorder) \<Rightarrow> ('e, 'p, 'a) library" where
  "total_library d =
     \<lparr>lib_next = Inr,
      lib_positions = (\<lambda>st g. Inr (positions st g)),
      lib_distance_array = (\<lambda>ps qs. Inr (distance_array d ps qs)),
      lib_contact_matrix = (\<lambda>dm radius. Inr (contact_matrix dm radius)),
      lib_sum = (\<lambda>m. Inr (matrix_sum m)),
      lib_array = (\<lambda>xs. Inr (np_array xs))\<rparr>"

definition total_array_library :: "('e, 'a::linorder) array_library" where
  "total_array_library =
     \<lparr>arr_less = (\<lambda>r x. Inr (map (\<lambda>y. y < x) r)),
      arr_greater = (\<lambda>r x. Inr (map (\<lambda>y. y > x) r)),
      arr_and = (\<lambda>xs ys. Inr (map (\<lambda>(x, y). x \<and> y) (zip xs ys))),
      arr_sum = (\<lambda>bs. Inr (array_sum bs)),
      arr_size = (\<lambda>r. Inr (int (length r))),
      arr_divide = (\<lambda>a b. Inr (true_divide a b))\<rparr>"

text \<open>
  A run is explained by its calls when every recorded call is answered by the library as
  recorded and, if the run ends with an exception, that exception is the one the last call
  of the run raised, every earlier call having returned; a run that returns a value has
  made no call that raised.
\<close>

definition explained_by_calls ::
  "('c \<Rightarrow> 'e option) \<Rightarrow> ('e failure + 'x) \<times> ('c \<times> 'e option) list \<Rightarrow> bool" where
  "explained_by_calls answer run =
     ((\<forall>(c, outcome) \<in> set (snd run). answer c = outcome) \<and>
      (case fst run of
         Inr v \<Rightarrow> (\<forall>(c, outcome) \<in> set (snd run). outcome = None)
       | Inl f \<Rightarrow>
           (\<exists>e. f = LibraryError e \<and> snd run \<noteq> [] \<and> snd (last (snd run)) = Some e \<and>
                (\<forall>(c, outcome) \<in> set (butlast (snd run)). outcome = None))))"

section \<open>Atom selections\<close>

text \<open>
  \<^verbatim>\<open>
  sel_basic = "(resname ARG LYS) and (name NH* NZ)"
  sel_acidic = "(resname ASP GLU) and (name OE* OD*)"
  acidic = u.select_atoms(sel_acidic)
  basic = u.select_atoms(sel_basic)
  \<close>
\<close>

definition sel_basic :: string where
  "sel_basic = ''(resname ARG LYS) and (name NH* NZ)''"

definition sel_acidic :: string where
  "sel_acidic = ''(resname ASP GLU) and (name OE* OD*)''"

text \<open>
  Modelled from the spec: \<open>Universe.select_atoms\<close> of the external library is missing; it
  evaluates a query of the string-based atom-selection language (for example
  \<^verbatim>\<open>(resname ARG LYS) and (name NH* NZ)\<close>). The fragment modelled is the one the notebooks
  use, with its neighbours: parentheses, \<open>and\<close>, \<open>or\<close>, \<open>not\<close>, and the keywords \<open>resname\<close>
  and \<open>name\<close>, each followed by one or more values; a value with a \<open>*\<close> stands for every
  string that starts with what precedes the \<open>*\<close>, as in the notebook's description of the
  groups (NH/NZ in ARG/LYS and OE*/OD* in ASP/GLU). A query outside the fragment is a
  selection error.
\<close>

datatype selection =
    ResnameSelection "string list"
  | NameSelection "string list"
  | AndOperation selection selection
  | OrOperation selection selection
  | NotSelection selection

datatype library_error = SelectionError | IndexError

text \<open>
  Modelled from the spec: the tokenizer of the selection language is missing with the
  library; parentheses are tokens of their own and the other tokens are the words between
  white space.
\<close>

definition is_space :: "char \<Rightarrow> bool" where
  "is_space c = (c = CHR '' '' \<or> c = CHR 0x09 \<or> c = CHR 0x0A \<or> c = CHR 0x0D)"

fun pad_parens :: "string \<Rightarrow> string" where
  "pad_parens [] = []"
| "pad_parens (c # cs) =
     (if c = CHR ''('' \<or> c = CHR '')'' then [CHR '' '', c, CHR '' ''] else [c]) @ pad_parens cs"

fun split_words :: "string \<Rightarrow> string \<Rightarrow> string list" where
  "split_words w [] = (if w = [] then [] else [w])"
| "split_words w (c # cs) =
     (if is_space c then (if w = [] then [] else [w]) @ split_words [] cs
      else split_words (w @ [c]) cs)"

definition tokenize :: "string \<Rightarrow> string list" where
  "tokenize s = split_words [] (pad_parens s)"

definition is_keyword :: "string \<Rightarrow> bool" where
  "is_keyword t = (t \<in> set [''('', '')'', ''and'', ''or'', ''not'', ''resname'', ''name''])"

text \<open>
  Modelled from the spec: the parser of the selection language is missing with the library.
  It climbs precedences: \<open>and\<close> and \<open>or\<close> bind equally (3) and associate to the left,
  \<open>not\<close> binds tighter (5). The first argument bounds the depth of the recursion; a query
  that exhausts it is rejected.
\<close>

fun parse_expression :: "nat \<Rightarrow> nat \<Rightarrow> string list \<Rightarrow> (selection \<times> string list) option"
  and parse_operations ::
    "nat \<Rightarrow> nat \<Rightarrow> selection \<Rightarrow> string list \<Rightarrow> (selection \<times> string list) option"
  and parse_subexp :: "nat \<Rightarrow> string list \<Rightarrow> (selection \<times> string list) option" where
  "parse_expression 0 p tokens = None"
| "parse_expression (Suc fuel) p tokens =
     (case parse_subexp fuel tokens of
        None \<Rightarrow> None
      | Some (exp1, rest) \<Rightarrow> parse_operations fuel p exp1 rest)"
| "parse_operations 0 p exp1 tokens = None"
| "parse_operations (Suc fuel) p exp1 [] = Some (exp1, [])"
| "parse_operations (Suc fuel) p exp1 (t # rest) =
     (if (t = ''and'' \<or> t = ''or'') \<and> 3 \<ge> p then
        (case parse_expression fuel 4 rest of
           None \<Rightarrow> None
         | Some (exp2, rest') \<Rightarrow>
             parse_operations fuel p
               (if t = ''and'' then AndOperation exp1 exp2 else OrOperation exp1 exp2) rest')
      else Some (exp1, t # rest))"
| "parse_subexp 0 tokens = None"
| "parse_subexp (Suc fuel) [] = None"
| "parse_subexp (Suc fuel) (t # rest) =
     (if t = ''('' then
        (case parse_expression fuel 0 rest of
           Some (sub, t' # rest') \<Rightarrow> if t' = '')'' then Some (sub, rest') else None
         | _ \<Rightarrow> None)
      else if t = ''not'' then
        (case parse_expression fuel 5 rest of
           Some (sub, rest') \<Rightarrow> Some (NotSelection sub, rest')
         | None \<Rightarrow> None)
      else if t = ''resname'' then
        (let vals = takeWhile (\<lambda>v. \<not> is_keyword v) rest in
         if vals = [] then None
         else Some (ResnameSelection vals, dropWhile (\<lambda>v. \<not> is_keyword v) rest))
      else if t = ''name'' then
        (let vals = takeWhile (\<lambda>v. \<not> is_keyword v) rest in
         if vals = [] then None
         else Some (NameSelection vals, dropWhile (\<lambda>v. \<not> is_keyword v) rest))
      else None)"

text \<open>
  Modelled from the spec: a query is a selection when the parser consumes all its tokens.
\<close>

definition parse :: "string \<Rightarrow> selection option" where
  "parse s =
     (let tokens = tokenize s in
      case parse_expression (3 * length tokens + 3) 0 tokens of
        Some (sub, []) \<Rightarrow> Some sub
      | _ \<Rightarrow> None)"

text \<open>
  Modelled from the spec: matching one value of a keyword against a string of an atom is
  missing with the library; a value without \<open>*\<close> matches itself only, a value with \<open>*\<close>
  matches the strings that start with the part before the \<open>*\<close>.
\<close>

definition matches_value :: "string \<Rightarrow> string \<Rightarrow> bool" where
  "matches_value val s =
     (if CHR ''*'' \<in> set val then prefix (takeWhile (\<lambda>c. c \<noteq> CHR ''*'') val) s
      else s = val)"

text \<open>
  Modelled from the spec: the meaning of a selection on one atom is missing with the
  library; a keyword holds when one of its values matches, the operations are those of logic.
\<close>

fun apply_selection :: "selection \<Rightarrow> atom \<Rightarrow> bool" where
  "apply_selection (ResnameSelection vals) a = list_ex (\<lambda>v. matches_value v (resname a)) vals"
| "apply_selection (NameSelection vals) a = list_ex (\<lambda>v. matches_value v (name a)) vals"
| "apply_selection (AndOperation l r) a = (apply_selection l a \<and> apply_selection r a)"
| "apply_selection (OrOperation l r) a = (apply_selection l a \<or> apply_selection r a)"
| "apply_selection (NotSelection l) a = (\<not> apply_selection l a)"

text \<open>
  Modelled from the spec: \<open>Universe.select_atoms\<close> is missing with the library; it returns
  the group of the atoms of the universe that the query selects, in the order of the
  universe, or fails with a selection error.
\<close>

definition select_atoms :: "'p universe \<Rightarrow> string \<Rightarrow> library_error + atomgroup" where
  "select_atoms u sel =
     (case parse sel of
        None \<Rightarrow> Inl SelectionError
      | Some s \<Rightarrow>
          Inr \<lparr>universe = uid u,
               ix = filter (\<lambda>i. apply_selection s (atoms u ! i)) [0..<length (atoms u)]\<rparr>)"

text \<open>What the notebook says the two groups are, atom by atom.\<close>

definition basic_nitrogen :: "atom \<Rightarrow> bool" where
  "basic_nitrogen a =
     ((resname a = ''ARG'' \<or> resname a = ''LYS'') \<and>
      (prefix ''NH'' (name a) \<or> name a = ''NZ''))"

definition acidic_oxygen :: "atom \<Rightarrow> bool" where
  "acidic_oxygen a =
     ((resname a = ''ASP'' \<or> resname a = ''GLU'') \<and>
      (prefix ''OE'' (name a) \<or> prefix ''OD'' (name a)))"

text \<open>
  The salt-bridge analysis of the notebook: the two selections, then the contact counts
  between the acidic and the basic group (in this order) within the radius.
  \<^verbatim>\<open>
  ca = contacts_within_cutoff(u, acidic, basic, radius=4.5)
  \<close>
\<close>

definition salt_bridges ::
  "('p \<Rightarrow> 'p \<Rightarrow> 'a::linorder) \<Rightarrow> 'p store \<Rightarrow> 'p universe \<Rightarrow> 'a \<Rightarrow> library_error + ndarray" where
  "salt_bridges d st u radius =
     (case select_atoms u sel_acidic of Inl e \<Rightarrow> Inl e | Inr acidic \<Rightarrow>
      case select_atoms u sel_basic of Inl e \<Rightarrow> Inl e | Inr basic \<Rightarrow>
      Inr (contacts_within_cutoff d st u acidic basic radius))"

text \<open>The index pairs, one atom of each group, that are in contact in the loaded frame.\<close>

definition contact_pairs ::
  "('p \<Rightarrow> 'p \<Rightarrow> 'a::linorder) \<Rightarrow> 'p store \<Rightarrow> atomgroup \<Rightarrow> atomgroup \<Rightarrow> 'a \<Rightarrow> (nat \<times> nat) list" where
  "contact_pairs d st group_a group_b radius =
     filter (\<lambda>(i, j). d (ts_positions (st (universe group_a)) i)
                         (ts_positions (st (universe group_b)) j) \<le> radius)
       (List.product (ix group_a) (ix group_b))"

section \<open>The analysis class with a custom scoring function\<close>

text \<open>
  Modelled from the spec: the class \<open>contacts.Contacts\<close> of the external library is missing;
  it is the reusable analysis class accepting two atom-selection groups, a reference group
  pair, a cutoff radius, a pluggable scoring function and auxiliary keyword arguments, and
  producing a per-frame time series. At construction it selects the two groups, measures the
  distances \<open>r0\<close> in the reference pair and keeps, as initial contacts, the pairs within the
  radius there (the native contacts of the notebook's text). \<open>run()\<close> visits every frame of
  the trajectory; for each it takes the distances \<open>r\<close> of the initial contacts in that
  frame, calls the scoring function on \<open>r\<close>, \<open>r0\<close> and the keyword arguments (the radius
  of the class is not passed on, as the notebook notes), and appends the row (frame index,
  score).
  Matrices are lists of rows, so the number of columns of a matrix without rows is not
  represented.
\<close>

text \<open>
  Modelled from the spec: indexing a matrix with a boolean matrix is missing with the array
  library; it keeps, row after row, the entries flagged true, and fails when the two shapes
  differ.
\<close>

definition masked :: "'a list list \<Rightarrow> bool list list \<Rightarrow> 'a list" where
  "masked dm flags = map fst (filter snd (zip (concat dm) (concat flags)))"

definition boolean_index :: "'a list list \<Rightarrow> bool list list \<Rightarrow> library_error + 'a list" where
  "boolean_index dm flags =
     (if map length dm = map length flags
      then Inr (masked dm flags)
      else Inl IndexError)"

text \<open>
  Modelled from the spec: the state of a \<open>Contacts\<close> object after construction: the
  universe, the two selected groups, the reference distances, the initial contacts, the
  scoring function and its keyword arguments.
\<close>

record ('p, 'a, 'k, 's) Contacts =
  c_universe :: "'p universe"
  grA :: atomgroup
  grB :: atomgroup
  ref_distances :: "'a list list"
  initial_contacts :: "bool list list"
  fraction_contacts :: "'a list \<Rightarrow> 'a list \<Rightarrow> 'k \<Rightarrow> 's"
  fraction_kwargs :: 'k

text \<open>
  Modelled from the spec: the constructor of \<open>Contacts\<close>; a selection error of either
  selection string ends it.
\<close>

definition Contacts_init ::
  "('p \<Rightarrow> 'p \<Rightarrow> 'a::linorder) \<Rightarrow> 'p store \<Rightarrow> 'p universe \<Rightarrow> string \<times> string \<Rightarrow>
   atomgroup \<times> atomgroup \<Rightarrow> ('a list \<Rightarrow> 'a list \<Rightarrow> 'k \<Rightarrow> 's) \<Rightarrow> 'a \<Rightarrow> 'k \<Rightarrow>
   library_error + ('p, 'a, 'k, 's) Contacts" where
  "Contacts_init d st u selection refgroup method radius kwargs =
     (case select_atoms u (fst selection) of Inl e \<Rightarrow> Inl e | Inr a \<Rightarrow>
      case select_atoms u (snd selection) of Inl e \<Rightarrow> Inl e | Inr b \<Rightarrow>
      let ref = distance_array d (positions st (fst refgroup)) (positions st (snd refgroup))
      in Inr \<lparr>c_universe = u, grA = a, grB = b, ref_distances = ref,
              initial_contacts = contact_matrix ref radius,
              fraction_contacts = method, fraction_kwargs = kwargs\<rparr>)"

text \<open>
  Modelled from the spec: the frames of \<open>Contacts.run()\<close>, one row (frame index, score) per
  frame of the trajectory, in trajectory order.
\<close>

fun Contacts_frames ::
  "('p \<Rightarrow> 'p \<Rightarrow> 'a::linorder) \<Rightarrow> ('p, 'a, 'k, 's) Contacts \<Rightarrow> 'p store \<Rightarrow> 'p timestep list \<Rightarrow>
   (int \<times> 's) list \<Rightarrow> library_error + (int \<times> 's) list" where
  "Contacts_frames d c st [] timeseries = Inr timeseries"
| "Contacts_frames d c st (ts # rest) timeseries =
     (let st' = st(uid (c_universe c) := ts);
          dm = distance_array d (positions st' (grA c)) (positions st' (grB c))
      in case boolean_index dm (initial_contacts c) of Inl e \<Rightarrow> Inl e | Inr r \<Rightarrow>
         case boolean_index (ref_distances c) (initial_contacts c) of Inl e \<Rightarrow> Inl e | Inr ref \<Rightarrow>
         Contacts_frames d c st' rest
           (timeseries @ [(frame ts, fraction_contacts c r ref (fraction_kwargs c))]))"

text \<open>
  Modelled from the spec: \<open>Contacts.run()\<close>; its result is the attribute \<open>timeseries\<close>.
\<close>

definition Contacts_run ::
  "('p \<Rightarrow> 'p \<Rightarrow> 'a::linorder) \<Rightarrow> 'p store \<Rightarrow> ('p, 'a, 'k, 's) Contacts \<Rightarrow>
   library_error + (int \<times> 's) list" where
  "Contacts_run d st c = Contacts_frames d c st (trajectory (c_universe c)) []"

text \<open>
  Keyword arguments for \<open>fraction_contacts_between\<close>: each of \<open>radius\<close> and \<open>min_radius\<close>
  is given or left to its default (3.4 and 2.5).
\<close>

record 'a between_kwargs =
  kw_radius :: "'a option"
  kw_min_radius :: "'a option"

definition call_fraction_contacts_between ::
  "('a::linordered_field) list \<Rightarrow> 'a list \<Rightarrow> 'a between_kwargs \<Rightarrow> npfloat" where
  "call_fraction_contacts_between r ref kwargs =
     fraction_contacts_between r ref
       (case kw_radius kwargs of None \<Rightarrow> 3.4 | Some x \<Rightarrow> x)
       (case kw_min_radius kwargs of None \<Rightarrow> 2.5 | Some x \<Rightarrow> x)"

text \<open>
  The cells of the custom-method notebook:
  \<^verbatim>\<open>
  acidic = u.select_atoms(sel_acidic)
  basic = u.select_atoms(sel_basic)
  ca = contacts.Contacts(u,
                         selection=(sel_acidic, sel_basic),
                         refgroup=(acidic, basic),
                         method=fraction_contacts_between,
                         radius=5.0,
                         kwargs={'radius': 5.0,
                                 'min_radius': 2.4}).run()
  \<close>
  The result is \<open>ca.timeseries\<close>.
\<close>

definition notebook_timeseries ::
  "('p \<Rightarrow> 'p \<Rightarrow> 'a::linordered_field) \<Rightarrow> 'p store \<Rightarrow> 'p universe \<Rightarrow>
   library_error + (int \<times> npfloat) list" where
  "notebook_timeseries d st u =
     (case select_atoms u sel_acidic of Inl e \<Rightarrow> Inl e | Inr acidic \<Rightarrow>
      case select_atoms u sel_basic of Inl e \<Rightarrow> Inl e | Inr basic \<Rightarrow>
      case Contacts_init d st u (sel_acidic, sel_basic) (acidic, basic)
             call_fraction_contacts_between 5.0
             \<lparr>kw_radius = Some 5.0, kw_min_radius = Some 2.4\<rparr> of
        Inl e \<Rightarrow> Inl e
      | Inr ca \<Rightarrow> Contacts_run d st ca)"

section \<open>Example data\<close>

text \<open>Atoms on a line: positions are integers and the distance is the absolute difference.\<close>

definition example_dist :: "int \<Rightarrow> int \<Rightarrow> int" where
  "example_dist p q = \<bar>p - q\<bar>"

definition example_frame0 :: "int timestep" where
  "example_frame0 = \<lparr>frame = 0, ts_positions = (\<lambda>i. 3 * int i)\<rparr>"

definition example_frame1 :: "int timestep" where
  "example_frame1 = \<lparr>frame = 1, ts_positions = (\<lambda>i. 5 * int i)\<rparr>"

definition example_atoms :: "atom list" where
  "example_atoms =
     [\<lparr>name = ''OD1'', resname = ''ASP''\<rparr>, \<lparr>name = ''NZ'', resname = ''LYS''\<rparr>,
      \<lparr>name = ''NH1'', resname = ''ARG''\<rparr>, \<lparr>name = ''CA'', resname = ''ARG''\<rparr>]"

definition example_universe :: "int universe" where
  "example_universe =
     \<lparr>uid = 0, atoms = example_atoms, trajectory = [example_frame0, example_frame1]\<rparr>"

definition example_empty :: "int universe" where
  "example_empty = \<lparr>uid = 0, atoms = example_atoms, trajectory = []\<rparr>"

definition example_dist_rat :: "int \<Rightarrow> int \<Rightarrow> rat" where
  "example_dist_rat p q = of_int \<bar>p - q\<bar>"

definition example_store :: "int store" where
  "example_store = (\<lambda>u. example_frame0)"

definition example_group_a :: atomgroup where
  "example_group_a = \<lparr>universe = 0, ix = [0]\<rparr>"

definition example_group_b :: atomgroup where
  "example_group_b = \<lparr>universe = 0, ix = [1, 2]\<rparr>"

text \<open>
  Another store, with the second frame loaded everywhere, and the two groups taken in a
  universe other than the example universe.
\<close>

definition example_other_store :: "int store" where
  "example_other_store = (\<lambda>u. example_frame1)"

definition example_foreign_a :: atomgroup where
  "example_foreign_a = \<lparr>universe = 1, ix = [0]\<rparr>"

definition example_foreign_b :: atomgroup where
  "example_foreign_b = \<lparr>universe = 1, ix = [1, 2]\<rparr>"

text \<open>Libraries in which one call raises: the sum of the contact matrix, and the division.\<close>

definition example_failing_library :: "(string, int, int) library" where
  "example_failing_library =
     (total_library example_dist)\<lparr>lib_sum := (\<lambda>m. Inl ''MemoryError'')\<rparr>"

definition example_failing_array_library :: "(string, int) array_library" where
  "example_failing_array_library =
     total_array_library\<lparr>arr_divide := (\<lambda>a b. Inl ''FloatingPointError'')\<rparr>"

section \<open>Properties of the contact count\<close>

lemmas example_defs =
  example_dist_def example_frame0_def example_frame1_def example_universe_def
  example_store_def example_group_a_def example_group_b_def

lemma trajectory_loop_eq:
  "trajectory_loop d u ga gb radius st tss acc =
     acc @ map (\<lambda>ts. [frame ts, n_contacts_at d (st(u := ts)) ga gb radius]) tss"
proof (induction tss arbitrary: st acc)
  case Nil
  show ?case by simp
next
  case (Cons ts rest)
  have body: "matrix_sum (contact_matrix (distance_array d (positions (st(u := ts)) ga)
      (positions (st(u := ts)) gb)) radius) = n_contacts_at d (st(u := ts)) ga gb radius"
    by (simp only: n_contacts_at_def)
  have "trajectory_loop d u ga gb radius st (ts # rest) acc =
      trajectory_loop d u ga gb radius (st(u := ts)) rest
        (acc @ [[frame ts, n_contacts_at d (st(u := ts)) ga gb radius]])"
    by (simp only: trajectory_loop.simps Let_def body)
  also have "\<dots> = (acc @ [[frame ts, n_contacts_at d (st(u := ts)) ga gb radius]]) @
      map (\<lambda>t. [frame t, n_contacts_at d ((st(u := ts))(u := t)) ga gb radius]) rest"
    by (rule Cons.IH)
  finally show ?case
    by (simp only: fun_upd_upd list.map append_assoc append_Cons append_Nil)
qed


lemma sum_of_bool_filter:
  "sum_list (map of_bool (map P xs)) = int (length (filter P xs))"
  by (induction xs) simp_all

lemma matrix_sum_threshold:
  "matrix_sum (contact_matrix (distance_array d ps qs) radius) = contact_count d ps qs radius"
proof (induction ps)
  case Nil
  show ?case
    by (simp add: matrix_sum_def contact_matrix_def distance_array_def contact_count_def)
next
  case (Cons p ps)
  have row: "sum_list (map of_bool (map (\<lambda>x. x \<le> radius) (map (d p) qs))) =
      int (length (filter (\<lambda>(p, q). d p q \<le> radius) (map (Pair p) qs)))"
    by (induction qs) simp_all
  have "matrix_sum (contact_matrix (distance_array d (p # ps) qs) radius) =
      sum_list (map of_bool (map (\<lambda>x. x \<le> radius) (map (d p) qs))) +
      matrix_sum (contact_matrix (distance_array d ps qs) radius)"
    by (simp add: matrix_sum_def contact_matrix_def distance_array_def)
  also have "\<dots> = int (length (filter (\<lambda>(p, q). d p q \<le> radius) (map (Pair p) qs))) +
      contact_count d ps qs radius"
    by (simp only: row Cons.IH)
  also have "\<dots> = contact_count d (p # ps) qs radius"
    by (simp add: contact_count_def)
  finally show ?case .
qed

lemma n_contacts_at_count:
  "n_contacts_at d st ga gb radius =
     contact_count d (positions st ga) (positions st gb) radius"
  by (simp add: n_contacts_at_def matrix_sum_threshold)

lemma contact_count_bounds:
  "0 \<le> contact_count d ps qs radius"
  "contact_count d ps qs radius \<le> int (length ps * length qs)"
proof -
  show "0 \<le> contact_count d ps qs radius"
    by (simp add: contact_count_def)
  have "length (filter (\<lambda>(p, q). d p q \<le> radius) (List.product ps qs)) \<le>
      length (List.product ps qs)"
    by (rule length_filter_le)
  then have "length (filter (\<lambda>(p, q). d p q \<le> radius) (List.product ps qs)) \<le>
      length ps * length qs"
    by simp
  then have "int (length (filter (\<lambda>(p, q). d p q \<le> radius) (List.product ps qs))) \<le>
      int (length ps * length qs)"
    by (rule iffD2 [OF of_nat_le_iff])
  then show "contact_count d ps qs radius \<le> int (length ps * length qs)"
    by (simp only: contact_count_def)
qed

lemma np_array_rows2:
  assumes "\<forall>r \<in> set xs. length r = 2"
  shows "np_array xs =
     (if xs = [] then \<lparr>shape = [0], entries = []\<rparr>
      else \<lparr>shape = [length xs, 2], entries = xs\<rparr>)"
proof (cases xs)
  case Nil
  then show ?thesis by (simp add: np_array_def)
next
  case (Cons x ys)
  with assms have "length x = 2" and "list_all (\<lambda>r. length r = 2) xs"
    by (simp_all add: list_all_iff)
  with Cons show ?thesis by (simp add: np_array_def)
qed

lemma contacts_within_cutoff_eq:
  "contacts_within_cutoff d st u ga gb radius =
     (let rows = map (\<lambda>ts. [frame ts, n_contacts_at d (st(uid u := ts)) ga gb radius])
                   (trajectory u)
      in if trajectory u = [] then \<lparr>shape = [0], entries = []\<rparr>
         else \<lparr>shape = [length (trajectory u), 2], entries = rows\<rparr>)"
proof -
  let ?rows = "map (\<lambda>ts. [frame ts, n_contacts_at d (st(uid u := ts)) ga gb radius])
                 (trajectory u)"
  have "\<forall>r \<in> set ?rows. length r = 2" by auto
  from np_array_rows2 [OF this] show ?thesis
    by (simp add: contacts_within_cutoff_def trajectory_loop_eq Let_def)
qed

section \<open>The table returned by \<open>contacts_within_cutoff\<close>\<close>

text \<open>
  C1 (as stated, refuted): the claim gives the returned array the shape \<open>(n, 2)\<close> for every
  trajectory of \<open>n\<close> frames. For a trajectory without frames the list \<open>timeseries\<close> stays
  empty and \<open>np.array([])\<close> is one-dimensional, of shape \<open>(0,)\<close>.
\<close>

theorem contacts_within_cutoff_empty_counterexample:
  "shape (contacts_within_cutoff example_dist example_store example_empty
            example_group_a example_group_b 3)
   \<noteq> [length (trajectory example_empty), 2]"
  by (simp add: contacts_within_cutoff_def np_array_def example_empty_def)

text \<open>
  C1 (amended): for every universe whose trajectory has \<open>n \<ge> 1\<close> frames and every pair of
  atom groups, \<open>contacts_within_cutoff\<close> returns an array of shape \<open>(n, 2)\<close> with one row per
  trajectory frame in iteration order; the first entry of row \<open>k\<close> is the frame index of the
  \<open>k\<close>-th frame and the second is the contact count computed while that frame is loaded.
\<close>

theorem contacts_within_cutoff_table:
  assumes "trajectory u \<noteq> []"
  shows "shape (contacts_within_cutoff d st u ga gb radius) = [length (trajectory u), 2] \<and>
    length (entries (contacts_within_cutoff d st u ga gb radius)) = length (trajectory u) \<and>
    (\<forall>k < length (trajectory u).
       entries (contacts_within_cutoff d st u ga gb radius) ! k =
         [frame (trajectory u ! k),
          n_contacts_at d (st(uid u := trajectory u ! k)) ga gb radius])"
  using assms by (simp add: contacts_within_cutoff_eq)

theorem contacts_within_cutoff_table_witness:
  "trajectory example_universe \<noteq> [] \<and>
   shape (contacts_within_cutoff example_dist example_store example_universe
            example_group_a example_group_b 3) = [2, 2] \<and>
   entries (contacts_within_cutoff example_dist example_store example_universe
            example_group_a example_group_b 3) ! 1 = [1, 0]"
proof -
  have ne: "trajectory example_universe \<noteq> []"
    by (simp add: example_defs)
  have n1: "n_contacts_at example_dist (example_store(0 := example_frame1))
      example_group_a example_group_b 3 = 0"
    by (simp add: n_contacts_at_def matrix_sum_def contact_matrix_def distance_array_def
        positions_def example_defs)
  show ?thesis
    using contacts_within_cutoff_table [OF ne, of example_dist example_store
        example_group_a example_group_b 3] n1
    by (simp add: example_universe_def example_frame1_def)
qed

text \<open>
  C2 (as stated, refuted): the claim counts the pairs whose distance is strictly below the
  radius. The thresholding keeps the distances that are at most the radius, so a pair at
  exactly the cutoff distance is counted: with one atom at 0, atoms at 3 and 6 and radius 3,
  the first frame reports one contact while no pair is strictly closer than 3.
\<close>

theorem contacts_within_cutoff_strict_counterexample:
  "entries (contacts_within_cutoff example_dist example_store example_universe
            example_group_a example_group_b 3) ! 0 ! 1
   \<noteq> spec_contact_count example_dist
        (positions (example_store(0 := example_frame0)) example_group_a)
        (positions (example_store(0 := example_frame0)) example_group_b) 3"
  by (simp add: contacts_within_cutoff_def np_array_def Let_def matrix_sum_def
      contact_matrix_def distance_array_def positions_def spec_contact_count_def example_defs)

text \<open>
  C2 (amended): for every frame, the contact count reported by \<open>contacts_within_cutoff\<close>
  equals the number of pairs \<open>(a, b)\<close>, with \<open>a\<close> from \<open>group_a\<close> and \<open>b\<close> from \<open>group_b\<close>,
  whose separation distance in that frame is at most the cutoff radius.
\<close>

theorem contacts_within_cutoff_counts_pairs:
  "\<forall>k < length (trajectory u).
     entries (contacts_within_cutoff d st u ga gb radius) ! k ! 1 =
       contact_count d (positions (st(uid u := trajectory u ! k)) ga)
         (positions (st(uid u := trajectory u ! k)) gb) radius"
  by (auto simp add: contacts_within_cutoff_eq n_contacts_at_count)

theorem contacts_within_cutoff_counts_pairs_witness:
  "(1::nat) < length (trajectory example_universe) \<and>
   entries (contacts_within_cutoff example_dist example_store example_universe
            example_group_a example_group_b 5) ! 1 ! 1 = 1"
proof -
  have len: "(1::nat) < length (trajectory example_universe)"
    by (simp add: example_defs)
  have cnt: "contact_count example_dist
      (positions (example_store(uid example_universe := trajectory example_universe ! 1))
         example_group_a)
      (positions (example_store(uid example_universe := trajectory example_universe ! 1))
         example_group_b) 5 = 1"
    by (simp add: contact_count_def positions_def example_defs)
  show ?thesis
    using contacts_within_cutoff_counts_pairs [of example_universe example_dist example_store
        example_group_a example_group_b 5] len cnt
    by simp
qed

text \<open>
  C3: while frame \<open>k\<close> is loaded, the distance function applied to the positions of the two
  groups gives a matrix with one row per atom of \<open>group_a\<close> and one column per atom of
  \<open>group_b\<close>, whose \<open>(i, j)\<close> entry is the distance between atom \<open>i\<close> of \<open>group_a\<close> and atom
  \<open>j\<close> of \<open>group_b\<close>; the thresholding function turns it into a boolean matrix of the same
  shape; the count reported for the frame is the sum of the entries of that boolean matrix,
  that is the number of its true entries.
\<close>

theorem contacts_within_cutoff_steps:
  assumes "k < length (trajectory u)"
    and "st' = st(uid u := trajectory u ! k)"
    and "dm = distance_array d (positions st' ga) (positions st' gb)"
    and "cm = contact_matrix dm radius"
  shows "length dm = length (ix ga) \<and>
    (\<forall>i < length (ix ga). length (dm ! i) = length (ix gb)) \<and>
    (\<forall>i < length (ix ga). \<forall>j < length (ix gb).
       dm ! i ! j = d (ts_positions (st' (universe ga)) (ix ga ! i))
                      (ts_positions (st' (universe gb)) (ix gb ! j))) \<and>
    length cm = length (ix ga) \<and>
    (\<forall>i < length (ix ga). length (cm ! i) = length (ix gb)) \<and>
    (\<forall>i < length (ix ga). \<forall>j < length (ix gb). cm ! i ! j = (dm ! i ! j \<le> radius)) \<and>
    entries (contacts_within_cutoff d st u ga gb radius) ! k ! 1 = matrix_sum cm \<and>
    matrix_sum cm = int (length (filter (\<lambda>b. b) (concat cm)))"
proof -
  have dm_shape: "length dm = length (ix ga)"
    "\<forall>i < length (ix ga). length (dm ! i) = length (ix gb)"
    by (simp_all add: assms(3) distance_array_def positions_def)
  have dm_entry: "\<forall>i < length (ix ga). \<forall>j < length (ix gb).
       dm ! i ! j = d (ts_positions (st' (universe ga)) (ix ga ! i))
                      (ts_positions (st' (universe gb)) (ix gb ! j))"
    by (simp add: assms(3) distance_array_def positions_def)
  have cm_shape: "length cm = length (ix ga)"
    "\<forall>i < length (ix ga). length (cm ! i) = length (ix gb)"
    using dm_shape by (simp_all add: assms(4) contact_matrix_def)
  have cm_entry: "\<forall>i < length (ix ga). \<forall>j < length (ix gb).
      cm ! i ! j = (dm ! i ! j \<le> radius)"
    using dm_shape by (simp add: assms(4) contact_matrix_def)
  have row: "entries (contacts_within_cutoff d st u ga gb radius) ! k ! 1 = matrix_sum cm"
  proof -
    from assms(1) have "trajectory u \<noteq> []" by auto
    with assms(1) show ?thesis
      by (simp add: contacts_within_cutoff_eq n_contacts_at_def assms(2,3,4))
  qed
  have "sum_list (map of_bool (map (\<lambda>b. b) (concat cm))) =
      int (length (filter (\<lambda>b. b) (concat cm)))"
    by (rule sum_of_bool_filter)
  then have total: "matrix_sum cm = int (length (filter (\<lambda>b. b) (concat cm)))"
    by (simp add: matrix_sum_def)
  from dm_shape dm_entry cm_shape cm_entry row total show ?thesis
    by blast
qed

theorem contacts_within_cutoff_steps_witness:
  "(0::nat) < length (trajectory example_universe) \<and>
   distance_array example_dist
     (positions (example_store(0 := example_frame0)) example_group_a)
     (positions (example_store(0 := example_frame0)) example_group_b) = [[3, 6]] \<and>
   contact_matrix [[3, 6]] (3::int) = [[True, False]] \<and>
   entries (contacts_within_cutoff example_dist example_store example_universe
            example_group_a example_group_b 3) ! 0 ! 1 = 1"
proof -
  have len: "(0::nat) < length (trajectory example_universe)"
    by (simp add: example_defs)
  have st: "example_store(0 := example_frame0) =
      example_store(uid example_universe := trajectory example_universe ! 0)"
    by (simp add: example_defs)
  have dm: "[[3, 6]] = distance_array example_dist
     (positions (example_store(0 := example_frame0)) example_group_a)
     (positions (example_store(0 := example_frame0)) example_group_b)"
    by (simp add: distance_array_def positions_def example_defs)
  have cm: "[[True, False]] = contact_matrix [[3, 6]] (3::int)"
    by (simp add: contact_matrix_def)
  have "matrix_sum [[True, False]] = 1"
    by (simp add: matrix_sum_def)
  with contacts_within_cutoff_steps [OF len st dm cm] dm cm len show ?thesis
    by simp
qed

text \<open>
  C10: every entry of the second column of the array returned by \<open>contacts_within_cutoff\<close>
  lies between 0 and \<open>len(group_a) * len(group_b)\<close>.
\<close>

theorem contacts_within_cutoff_count_bounds:
  "\<forall>row \<in> set (entries (contacts_within_cutoff d st u ga gb radius)).
     0 \<le> row ! 1 \<and> row ! 1 \<le> int (length (ix ga) * length (ix gb))"
proof
  fix row
  assume "row \<in> set (entries (contacts_within_cutoff d st u ga gb radius))"
  then obtain ts where "row = [frame ts, n_contacts_at d (st(uid u := ts)) ga gb radius]"
    by (auto simp add: contacts_within_cutoff_eq Let_def split: if_splits)
  then have "row ! 1 = contact_count d (positions (st(uid u := ts)) ga)
      (positions (st(uid u := ts)) gb) radius"
    by (simp add: n_contacts_at_count)
  moreover have "length (positions (st(uid u := ts)) ga) = length (ix ga)"
    "length (positions (st(uid u := ts)) gb) = length (ix gb)"
    by (simp_all add: positions_def)
  ultimately show "0 \<le> row ! 1 \<and> row ! 1 \<le> int (length (ix ga) * length (ix gb))"
    using contact_count_bounds [of d "positions (st(uid u := ts)) ga"
        "positions (st(uid u := ts)) gb" radius]
    by simp
qed

theorem contacts_within_cutoff_count_bounds_witness:
  "[0, 1] \<in> set (entries (contacts_within_cutoff example_dist example_store example_universe
            example_group_a example_group_b 3)) \<and>
   (0::int) \<le> [0, 1] ! 1 \<and>
   [0, 1] ! 1 \<le> int (length (ix example_group_a) * length (ix example_group_b))"
proof -
  have mem: "[0, 1] \<in> set (entries (contacts_within_cutoff example_dist example_store
      example_universe example_group_a example_group_b 3))"
    by (simp add: contacts_within_cutoff_def np_array_def Let_def matrix_sum_def
        contact_matrix_def distance_array_def positions_def example_defs)
  from bspec [OF contacts_within_cutoff_count_bounds mem] mem show ?thesis
    by simp
qed

section \<open>Properties of the scoring function\<close>

lemma is_in_contact_count:
  "array_sum (map (\<lambda>(x, y). x \<and> y)
       (zip (map (\<lambda>x. x < radius) r) (map (\<lambda>x. x > min_radius) r))) =
     int (length (filter (\<lambda>x. min_radius < x \<and> x < radius) r))"
  by (induction r) (auto simp add: array_sum_def)

lemma fraction_contacts_between_empty:
  "fraction_contacts_between [] r0 radius min_radius = NaN"
  by (simp add: fraction_contacts_between_def true_divide_def array_sum_def)

text \<open>
  C8: the result of \<open>fraction_contacts_between\<close> does not depend on its second argument
  \<open>r0\<close>, whatever the reference arrays are.
\<close>

theorem fraction_contacts_between_ignores_r0:
  "fraction_contacts_between r r0 radius min_radius =
   fraction_contacts_between r r0' radius min_radius"
  by (simp add: fraction_contacts_between_def)

text \<open>
  C9: for a non-empty distance array \<open>r\<close>, the divisor \<open>r.size\<close> is not zero and
  \<open>fraction_contacts_between\<close> returns the number of entries of \<open>r\<close> strictly greater than
  \<open>min_radius\<close> and strictly less than \<open>radius\<close>, divided by \<open>r.size\<close>; the value lies in
  \<open>[0, 1]\<close>.
\<close>

theorem fraction_contacts_between_fraction:
  assumes "r \<noteq> []"
  shows "int (length r) \<noteq> 0 \<and>
    fraction_contacts_between r r0 radius min_radius =
      Finite (of_nat (length (filter (\<lambda>x. min_radius < x \<and> x < radius) r)) /
              of_nat (length r)) \<and>
    (0::rat) \<le> of_nat (length (filter (\<lambda>x. min_radius < x \<and> x < radius) r)) /
              of_nat (length r) \<and>
    of_nat (length (filter (\<lambda>x. min_radius < x \<and> x < radius) r)) / of_nat (length r)
      \<le> (1::rat)"
proof -
  let ?c = "length (filter (\<lambda>x. min_radius < x \<and> x < radius) r)"
  from assms have pos: "0 < length r" by simp
  have res: "fraction_contacts_between r r0 radius min_radius =
      Finite (of_nat ?c / of_nat (length r))"
    using pos by (simp add: fraction_contacts_between_def is_in_contact_count true_divide_def)
  have "?c \<le> length r" by (rule length_filter_le)
  then have "(of_nat ?c :: rat) \<le> of_nat (length r)" by (rule iffD2 [OF of_nat_le_iff])
  with pos have upper: "(of_nat ?c :: rat) / of_nat (length r) \<le> 1"
    by (simp add: divide_le_eq_1)
  have lower: "(0::rat) \<le> of_nat ?c / of_nat (length r)" by simp
  from pos res lower upper show ?thesis by simp
qed

theorem fraction_contacts_between_fraction_witness:
  "[3, 4, 6] \<noteq> ([]::int list) \<and>
   fraction_contacts_between [3, 4, 6 :: int] () 5 2 = Finite (2 / 3)"
proof -
  have ne: "[3, 4, 6] \<noteq> ([]::int list)" by simp
  from fraction_contacts_between_fraction [OF ne, of "()" 5 2] ne show ?thesis
    by simp
qed

section \<open>Determinism of the loop\<close>

lemma loop_step_deterministic:
  assumes "loop_step d u ga gb radius s s1" and "loop_step d u ga gb radius s s2"
  shows "s1 = s2"
  using assms by (auto elim!: loop_step.cases)

lemma loop_run_result:
  assumes "loop_run d u ga gb radius s res"
  shows "res = np_array (trajectory_loop d u ga gb radius (fst s) (fst (snd s)) (snd (snd s)))"
  using assms
proof (induction rule: loop_run.induct)
  case (return st timeseries)
  show ?case by simp
next
  case (iterate s s' result)
  from iterate.hyps(1) obtain st ts rest acc where s: "s = (st, ts # rest, acc)"
    and s': "s' = (st(u := ts), rest, acc @ [[frame ts, matrix_sum (contact_matrix
        (distance_array d (positions (st(u := ts)) ga) (positions (st(u := ts)) gb))
        radius)]])"
    by (cases rule: loop_step.cases) simp
  show ?case
    by (simp only: iterate.IH s s' fst_conv snd_conv trajectory_loop.simps Let_def)
qed

lemma loop_run_exists:
  "loop_run d u ga gb radius (st, tss, acc)
     (np_array (trajectory_loop d u ga gb radius st tss acc))"
proof (induction tss arbitrary: st acc)
  case Nil
  show ?case by (simp add: loop_run.return)
next
  case (Cons ts rest)
  let ?n = "matrix_sum (contact_matrix
      (distance_array d (positions (st(u := ts)) ga) (positions (st(u := ts)) gb)) radius)"
  have step: "loop_step d u ga gb radius (st, ts # rest, acc)
      (st(u := ts), rest, acc @ [[frame ts, ?n]])"
    by (rule loop_step.iteration) (rule refl)+
  have "loop_run d u ga gb radius (st(u := ts), rest, acc @ [[frame ts, ?n]])
      (np_array (trajectory_loop d u ga gb radius (st(u := ts)) rest (acc @ [[frame ts, ?n]])))"
    by (rule Cons.IH)
  with step have "loop_run d u ga gb radius (st, ts # rest, acc)
      (np_array (trajectory_loop d u ga gb radius (st(u := ts)) rest (acc @ [[frame ts, ?n]])))"
    by (rule loop_run.iterate)
  then show ?case by (simp add: Let_def)
qed

lemma loop_steps_in_order:
  assumes "(loop_step d u ga gb radius ^^ k) (st, tss, acc) s"
  shows "k \<le> length tss \<and> fst (snd s) = drop k tss \<and>
    snd (snd s) =
      acc @ map (\<lambda>ts. [frame ts, n_contacts_at d (st(u := ts)) ga gb radius]) (take k tss)"
  using assms
proof (induction k arbitrary: st tss acc)
  case 0
  then show ?case by auto
next
  case (Suc k)
  from Suc.prems obtain s' where first: "loop_step d u ga gb radius (st, tss, acc) s'"
    and later: "(loop_step d u ga gb radius ^^ k) s' s"
    by (rule relpowp_Suc_E2)
  from first obtain ts rest where tss: "tss = ts # rest"
    and s': "s' = (st(u := ts), rest,
        acc @ [[frame ts, n_contacts_at d (st(u := ts)) ga gb radius]])"
    by (cases rule: loop_step.cases) (simp add: n_contacts_at_def)
  from later have "k \<le> length rest \<and> fst (snd s) = drop k rest \<and>
    snd (snd s) = (acc @ [[frame ts, n_contacts_at d (st(u := ts)) ga gb radius]]) @
      map (\<lambda>t. [frame t, n_contacts_at d ((st(u := ts))(u := t)) ga gb radius]) (take k rest)"
    unfolding s' by (rule Suc.IH)
  then have "k \<le> length rest \<and> fst (snd s) = drop k rest \<and>
    snd (snd s) = acc @
      map (\<lambda>t. [frame t, n_contacts_at d (st(u := t)) ga gb radius]) (ts # take k rest)"
    by (simp only: fun_upd_upd list.map append_assoc append_Cons append_Nil)
  then show ?case
    by (simp only: tss take_Suc_Cons drop_Suc_Cons length_Cons Suc_le_mono)
qed

lemma positions_same_frame:
  assumes "universe g \<noteq> u \<longrightarrow> sa (universe g) = sb (universe g)"
  shows "positions (sa(u := ts)) g = positions (sb(u := ts)) g"
  using assms by (simp add: positions_def)

lemma n_contacts_at_same_frame:
  assumes "universe ga \<noteq> u \<longrightarrow> sa (universe ga) = sb (universe ga)"
    and "universe gb \<noteq> u \<longrightarrow> sa (universe gb) = sb (universe gb)"
  shows "n_contacts_at d (sa(u := ts)) ga gb radius = n_contacts_at d (sb(u := ts)) ga gb radius"
proof -
  have a: "positions (sa(u := ts)) ga = positions (sb(u := ts)) ga"
    using assms(1) by (rule positions_same_frame)
  have b: "positions (sa(u := ts)) gb = positions (sb(u := ts)) gb"
    using assms(2) by (rule positions_same_frame)
  show ?thesis by (simp only: n_contacts_at_def a b)
qed

lemma contacts_within_cutoff_same_frames:
  assumes "universe ga \<noteq> uid u \<longrightarrow> sa (universe ga) = sb (universe ga)"
    and "universe gb \<noteq> uid u \<longrightarrow> sa (universe gb) = sb (universe gb)"
  shows "contacts_within_cutoff d sa u ga gb radius = contacts_within_cutoff d sb u ga gb radius"
proof -
  have "\<And>ts. n_contacts_at d (sa(uid u := ts)) ga gb radius =
      n_contacts_at d (sb(uid u := ts)) ga gb radius"
    using assms by (rule n_contacts_at_same_frame)
  then show ?thesis by (simp only: contacts_within_cutoff_eq)
qed

text \<open>
  C7 (as stated, refuted): the claim makes the universe, the atom groups and the radius the
  inputs of a run. The positions of a group are read in the universe the group belongs to,
  and the loop loads frames into \<open>u\<close> only: for groups of another universe the array depends
  on the frame that universe holds when the function is called. Two runs on the same
  universe, groups and radius, with another frame loaded in the groups' universe, return
  different arrays.
\<close>

theorem contacts_within_cutoff_foreign_counterexample:
  "contacts_within_cutoff_run example_dist example_store example_universe
     example_foreign_a example_foreign_b 3 \<lparr>shape = [2, 2], entries = [[0, 1], [1, 1]]\<rparr> \<and>
   contacts_within_cutoff_run example_dist example_other_store example_universe
     example_foreign_a example_foreign_b 3 \<lparr>shape = [2, 2], entries = [[0, 0], [1, 0]]\<rparr> \<and>
   \<lparr>shape = [2, 2], entries = [[0, 1], [1, 1]]\<rparr> \<noteq>
     \<lparr>shape = [2, 2], entries = [[0, 0], [1, 0 :: int]]\<rparr>"
proof -
  have v1: "np_array (trajectory_loop example_dist (uid example_universe) example_foreign_a
      example_foreign_b 3 example_store (trajectory example_universe) []) =
      \<lparr>shape = [2, 2], entries = [[0, 1], [1, 1]]\<rparr>"
    by (simp add: np_array_def Let_def matrix_sum_def contact_matrix_def distance_array_def
        positions_def example_defs example_foreign_a_def example_foreign_b_def)
  have v2: "np_array (trajectory_loop example_dist (uid example_universe) example_foreign_a
      example_foreign_b 3 example_other_store (trajectory example_universe) []) =
      \<lparr>shape = [2, 2], entries = [[0, 0], [1, 0]]\<rparr>"
    by (simp add: np_array_def Let_def matrix_sum_def contact_matrix_def distance_array_def
        positions_def example_defs example_foreign_a_def example_foreign_b_def
        example_other_store_def)
  have r1: "contacts_within_cutoff_run example_dist example_store example_universe
     example_foreign_a example_foreign_b 3 \<lparr>shape = [2, 2], entries = [[0, 1], [1, 1]]\<rparr>"
    unfolding contacts_within_cutoff_run_def
    using loop_run_exists [of example_dist "uid example_universe" example_foreign_a
        example_foreign_b 3 example_store "trajectory example_universe" "[]"]
    by (simp only: v1)
  have r2: "contacts_within_cutoff_run example_dist example_other_store example_universe
     example_foreign_a example_foreign_b 3 \<lparr>shape = [2, 2], entries = [[0, 0], [1, 0]]\<rparr>"
    unfolding contacts_within_cutoff_run_def
    using loop_run_exists [of example_dist "uid example_universe" example_foreign_a
        example_foreign_b 3 example_other_store "trajectory example_universe" "[]"]
    by (simp only: v2)
  from r1 r2 show ?thesis by simp
qed

text \<open>
  C7 (amended): any two runs of \<open>contacts_within_cutoff\<close> on equal universes, equal atom
  groups and equal radius, in which every universe other than \<open>u\<close> that a group belongs to
  holds the same frame, return equal arrays; for groups of \<open>u\<close> itself the frame loaded
  before the call does not matter. Each run is sequential: after \<open>k\<close> iterations exactly the
  first \<open>k\<close> frames of the trajectory have been processed, in trajectory order, one row
  each, the others are still to come, and the two runs have built the same rows.
\<close>

theorem contacts_within_cutoff_deterministic:
  assumes "contacts_within_cutoff_run d sa u ga gb radius res1"
    and "contacts_within_cutoff_run d sb u ga gb radius res2"
    and "universe ga \<noteq> uid u \<longrightarrow> sa (universe ga) = sb (universe ga)"
    and "universe gb \<noteq> uid u \<longrightarrow> sa (universe gb) = sb (universe gb)"
  shows "res1 = res2 \<and>
    (\<forall>k s1 s2.
       (loop_step d (uid u) ga gb radius ^^ k) (sa, trajectory u, []) s1 \<and>
       (loop_step d (uid u) ga gb radius ^^ k) (sb, trajectory u, []) s2 \<longrightarrow>
       k \<le> length (trajectory u) \<and>
       fst (snd s1) = drop k (trajectory u) \<and> fst (snd s2) = drop k (trajectory u) \<and>
       snd (snd s1) =
         map (\<lambda>ts. [frame ts, n_contacts_at d (sa(uid u := ts)) ga gb radius])
           (take k (trajectory u)) \<and>
       snd (snd s2) = snd (snd s1))"
proof -
  from assms(1) have r1: "res1 = contacts_within_cutoff d sa u ga gb radius"
    unfolding contacts_within_cutoff_run_def contacts_within_cutoff_def
    by (rule loop_run_result [where s = "(sa, trajectory u, [])", simplified])
  from assms(2) have r2: "res2 = contacts_within_cutoff d sb u ga gb radius"
    unfolding contacts_within_cutoff_run_def contacts_within_cutoff_def
    by (rule loop_run_result [where s = "(sb, trajectory u, [])", simplified])
  have same: "res1 = res2"
    by (simp only: r1 r2 contacts_within_cutoff_same_frames [OF assms(3,4)])
  have order: "\<forall>k s1 s2.
       (loop_step d (uid u) ga gb radius ^^ k) (sa, trajectory u, []) s1 \<and>
       (loop_step d (uid u) ga gb radius ^^ k) (sb, trajectory u, []) s2 \<longrightarrow>
       k \<le> length (trajectory u) \<and>
       fst (snd s1) = drop k (trajectory u) \<and> fst (snd s2) = drop k (trajectory u) \<and>
       snd (snd s1) =
         map (\<lambda>ts. [frame ts, n_contacts_at d (sa(uid u := ts)) ga gb radius])
           (take k (trajectory u)) \<and>
       snd (snd s2) = snd (snd s1)"
  proof (intro allI impI)
    fix k s1 s2
    assume steps: "(loop_step d (uid u) ga gb radius ^^ k) (sa, trajectory u, []) s1 \<and>
       (loop_step d (uid u) ga gb radius ^^ k) (sb, trajectory u, []) s2"
    from steps have a: "k \<le> length (trajectory u) \<and> fst (snd s1) = drop k (trajectory u) \<and>
        snd (snd s1) = [] @ map (\<lambda>ts. [frame ts, n_contacts_at d (sa(uid u := ts)) ga gb radius])
          (take k (trajectory u))"
      by (intro loop_steps_in_order) simp
    from steps have b: "k \<le> length (trajectory u) \<and> fst (snd s2) = drop k (trajectory u) \<and>
        snd (snd s2) = [] @ map (\<lambda>ts. [frame ts, n_contacts_at d (sb(uid u := ts)) ga gb radius])
          (take k (trajectory u))"
      by (intro loop_steps_in_order) simp
    from b have "snd (snd s2) =
        map (\<lambda>ts. [frame ts, n_contacts_at d (sa(uid u := ts)) ga gb radius])
          (take k (trajectory u))"
    proof -
      have "\<And>ts. n_contacts_at d (sb(uid u := ts)) ga gb radius =
          n_contacts_at d (sa(uid u := ts)) ga gb radius"
        using assms(3,4) by (rule n_contacts_at_same_frame [symmetric])
      with b show ?thesis by (simp only: append_Nil)
    qed
    with a b show "k \<le> length (trajectory u) \<and>
       fst (snd s1) = drop k (trajectory u) \<and> fst (snd s2) = drop k (trajectory u) \<and>
       snd (snd s1) =
         map (\<lambda>ts. [frame ts, n_contacts_at d (sa(uid u := ts)) ga gb radius])
           (take k (trajectory u)) \<and>
       snd (snd s2) = snd (snd s1)"
      by simp
  qed
  from same order show ?thesis by (rule conjI)
qed

theorem contacts_within_cutoff_deterministic_witness:
  "contacts_within_cutoff_run example_dist example_store example_universe
     example_group_a example_group_b 3 \<lparr>shape = [2, 2], entries = [[0, 1], [1, 0]]\<rparr> \<and>
   contacts_within_cutoff_run example_dist example_other_store example_universe
     example_group_a example_group_b 3 \<lparr>shape = [2, 2], entries = [[0, 1], [1, 0]]\<rparr> \<and>
   example_store (universe example_group_a) \<noteq> example_other_store (universe example_group_a) \<and>
   universe example_group_a = uid example_universe \<and>
   universe example_group_b = uid example_universe"
proof -
  have own: "universe example_group_a = uid example_universe"
    "universe example_group_b = uid example_universe"
    by (simp_all add: example_defs)
  have differ: "example_store (universe example_group_a) \<noteq>
      example_other_store (universe example_group_a)"
    by (simp add: example_defs example_other_store_def)
  have v1: "np_array (trajectory_loop example_dist (uid example_universe) example_group_a
      example_group_b 3 example_store (trajectory example_universe) []) =
      \<lparr>shape = [2, 2], entries = [[0, 1], [1, 0]]\<rparr>"
    by (simp add: np_array_def Let_def matrix_sum_def contact_matrix_def distance_array_def
        positions_def example_defs)
  have r1: "contacts_within_cutoff_run example_dist example_store example_universe
     example_group_a example_group_b 3 \<lparr>shape = [2, 2], entries = [[0, 1], [1, 0]]\<rparr>"
    unfolding contacts_within_cutoff_run_def
    using loop_run_exists [of example_dist "uid example_universe" example_group_a
        example_group_b 3 example_store "trajectory example_universe" "[]"]
    by (simp only: v1)
  have r2': "contacts_within_cutoff_run example_dist example_other_store example_universe
     example_group_a example_group_b 3
     (np_array (trajectory_loop example_dist (uid example_universe) example_group_a
        example_group_b 3 example_other_store (trajectory example_universe) []))"
    unfolding contacts_within_cutoff_run_def by (rule loop_run_exists)
  from own have h1: "universe example_group_a \<noteq> uid example_universe \<longrightarrow>
      example_store (universe example_group_a) = example_other_store (universe example_group_a)"
    and h2: "universe example_group_b \<noteq> uid example_universe \<longrightarrow>
      example_store (universe example_group_b) = example_other_store (universe example_group_b)"
    by simp_all
  from contacts_within_cutoff_deterministic [OF r1 r2' h1 h2]
  have "np_array (trajectory_loop example_dist (uid example_universe) example_group_a
        example_group_b 3 example_other_store (trajectory example_universe) []) =
      \<lparr>shape = [2, 2], entries = [[0, 1], [1, 0]]\<rparr>"
    by simp
  with r2' have r2: "contacts_within_cutoff_run example_dist example_other_store
     example_universe example_group_a example_group_b 3
     \<lparr>shape = [2, 2], entries = [[0, 1], [1, 0]]\<rparr>"
    by simp
  from r1 r2 differ own show ?thesis by simp
qed


section \<open>Where an exception can come from\<close>

lemma explained_failed:
  assumes "answer c = Some e"
  shows "explained_by_calls answer (failed c e)"
  using assms by (simp add: explained_by_calls_def failed_def)

lemma explained_after:
  assumes "answer c = None" and "explained_by_calls answer k"
  shows "explained_by_calls answer (after c k)"
  using assms by (cases k) (auto simp add: explained_by_calls_def after_def split: sum.splits)

lemma explained_loop:
  "explained_by_calls (library_answer lib)
     (trajectory_loop_traced lib u ga gb radius st tss acc)"
proof (induction tss arbitrary: st acc)
  case Nil
  show ?case by (simp add: explained_by_calls_def)
next
  case (Cons t rest)
  show ?case
    by (auto simp add: Let_def Cons.IH split: sum.splits
        intro!: explained_failed explained_after)
qed

lemma explained_contacts_within_cutoff:
  "explained_by_calls (library_answer lib) (contacts_within_cutoff_traced lib st u ga gb radius)"
proof -
  obtain res calls where run:
    "trajectory_loop_traced lib (uid u) ga gb radius st (trajectory u) [] = (res, calls)"
    by (cases "trajectory_loop_traced lib (uid u) ga gb radius st (trajectory u) []")
  have ex: "explained_by_calls (library_answer lib) (res, calls)"
    using explained_loop [of lib "uid u" ga gb radius st "trajectory u" "[]"] run by simp
  show ?thesis
  proof (cases res)
    case (Inl f)
    with ex run show ?thesis
      by (simp add: contacts_within_cutoff_traced_def explained_by_calls_def)
  next
    case (Inr timeseries)
    with ex have ok: "\<forall>(c, outcome) \<in> set calls. library_answer lib c = outcome"
      "\<forall>(c, outcome) \<in> set calls. outcome = None"
      by (simp_all add: explained_by_calls_def)
    show ?thesis
    proof (cases "lib_array lib timeseries")
      case (Inl e)
      with Inr run ok show ?thesis
        by (auto simp add: contacts_within_cutoff_traced_def explained_by_calls_def)
    next
      case arr: (Inr a)
      with Inr run ok show ?thesis
        by (auto simp add: contacts_within_cutoff_traced_def explained_by_calls_def)
    qed
  qed
qed

lemma explained_fraction_contacts_between:
  "explained_by_calls (array_answer lib)
     (fraction_contacts_between_traced lib (Array r) ref radius min_radius)"
proof -
  have last: "\<And>n m fraction. arr_divide lib n m = Inr fraction \<Longrightarrow>
      explained_by_calls (array_answer lib)
        (Inr fraction, [(TrueDivide n m, None)])"
    by (simp add: explained_by_calls_def)
  show ?thesis
    unfolding fraction_contacts_between_traced_def
    by (auto split: sum.splits intro!: explained_failed explained_after last)
qed


lemma trajectory_loop_traced_total:
  "fst (trajectory_loop_traced (total_library d) u ga gb radius st tss acc) =
     Inr (trajectory_loop d u ga gb radius st tss acc)"
  by (induction tss arbitrary: st acc) (simp_all add: total_library_def Let_def after_def)

lemma lib_array_total: "lib_array (total_library d) xs = Inr (np_array xs)"
  by (simp add: total_library_def)

lemma contacts_within_cutoff_traced_total:
  "fst (contacts_within_cutoff_traced (total_library d :: ('e, 'p, 'a::linorder) library)
      st u ga gb radius) = Inr (contacts_within_cutoff d st u ga gb radius)"
proof -
  have "fst (trajectory_loop_traced (total_library d :: ('e, 'p, 'a) library) (uid u) ga gb
      radius st (trajectory u) []) =
      Inr (trajectory_loop d (uid u) ga gb radius st (trajectory u) [])"
    by (rule trajectory_loop_traced_total)
  then show ?thesis
    by (auto simp add: contacts_within_cutoff_traced_def contacts_within_cutoff_def
        lib_array_total split: prod.splits sum.splits)
qed

lemma fraction_contacts_between_traced_total:
  "fst (fraction_contacts_between_traced total_array_library (Array r) ref radius min_radius) =
     Inr (fraction_contacts_between r ref radius min_radius)"
  by (simp add: fraction_contacts_between_traced_def fraction_contacts_between_def
      total_array_library_def after_def)

text \<open>
  C6 (as stated, refuted): the claim lets every exception, for every input, propagate from
  a call into the external library. Called with a plain list for \<open>r\<close>,
  \<open>fraction_contacts_between\<close> ends with the \<open>TypeError\<close> of the comparison \<open>r < radius\<close> in
  its own body, although no library call was made and none can fail.
\<close>

theorem plain_list_counterexample:
  "fraction_contacts_between_traced total_array_library (Sequence [3, 4, 6 :: int]) () 5 2 =
     (Inl TypeError, []) \<and>
   \<not> explained_by_calls (array_answer total_array_library)
       (fraction_contacts_between_traced total_array_library (Sequence [3, 4, 6 :: int]) () 5 2)"
  by (simp add: fraction_contacts_between_traced_def explained_by_calls_def)

text \<open>
  C6 (amended): the two functions raise nothing of their own on arguments of the types they
  are written for (a universe with its trajectory and atom groups; an array \<open>r\<close>). A run of
  \<open>contacts_within_cutoff\<close> or of \<open>fraction_contacts_between\<close> ends with an exception only
  when the last library call it made raised that exception, every earlier call of the run
  having returned; a run whose calls all return gives a value.
\<close>

theorem failures_are_failed_calls:
  "explained_by_calls (library_answer lib)
     (contacts_within_cutoff_traced lib st u ga gb radius) \<and>
   explained_by_calls (array_answer alib)
     (fraction_contacts_between_traced alib (Array r) ref rad min_radius)"
  using explained_contacts_within_cutoff explained_fraction_contacts_between
  by (rule conjI)

theorem failures_are_failed_calls_witness:
  "fst (contacts_within_cutoff_traced example_failing_library example_store example_universe
     example_group_a example_group_b 3) = Inl (LibraryError ''MemoryError'') \<and>
   snd (last (snd (contacts_within_cutoff_traced example_failing_library example_store
     example_universe example_group_a example_group_b 3))) = Some ''MemoryError'' \<and>
   fst (fraction_contacts_between_traced example_failing_array_library (Array [3, 4, 6]) () 5 2) =
     Inl (LibraryError ''FloatingPointError'') \<and>
   snd (last (snd (fraction_contacts_between_traced example_failing_array_library
     (Array [3, 4, 6]) () 5 2))) = Some ''FloatingPointError''"
proof -
  have a: "fst (contacts_within_cutoff_traced example_failing_library example_store
      example_universe example_group_a example_group_b 3) = Inl (LibraryError ''MemoryError'')"
    by (simp add: contacts_within_cutoff_traced_def example_failing_library_def
        total_library_def example_universe_def Let_def after_def failed_def)
  have b: "fst (fraction_contacts_between_traced example_failing_array_library
      (Array [3, 4, 6]) () 5 2) = Inl (LibraryError ''FloatingPointError'')"
    by (simp add: fraction_contacts_between_traced_def example_failing_array_library_def
        total_array_library_def after_def failed_def)
  from failures_are_failed_calls [of example_failing_library example_store example_universe
      example_group_a example_group_b 3 example_failing_array_library "[3, 4, 6]" "()" 5 2]
    a b
  show ?thesis
    by (simp add: explained_by_calls_def)
qed


section \<open>Selections and salt bridges\<close>

lemma parse_sel_basic:
  "parse sel_basic =
     Some (AndOperation (ResnameSelection [''ARG'', ''LYS'']) (NameSelection [''NH*'', ''NZ'']))"
  by code_simp

lemma parse_sel_acidic:
  "parse sel_acidic =
     Some (AndOperation (ResnameSelection [''ASP'', ''GLU'']) (NameSelection [''OE*'', ''OD*'']))"
  by code_simp

lemma apply_sel_basic:
  "apply_selection
     (AndOperation (ResnameSelection [''ARG'', ''LYS'']) (NameSelection [''NH*'', ''NZ''])) a =
   basic_nitrogen a"
  by (auto simp add: matches_value_def basic_nitrogen_def)

lemma apply_sel_acidic:
  "apply_selection
     (AndOperation (ResnameSelection [''ASP'', ''GLU'']) (NameSelection [''OE*'', ''OD*''])) a =
   acidic_oxygen a"
  by (auto simp add: matches_value_def acidic_oxygen_def)

lemma select_atoms_basic:
  "select_atoms u sel_basic =
     Inr \<lparr>universe = uid u,
          ix = filter (\<lambda>i. basic_nitrogen (atoms u ! i)) [0..<length (atoms u)]\<rparr>"
  by (simp only: select_atoms_def parse_sel_basic option.case apply_sel_basic)

lemma select_atoms_acidic:
  "select_atoms u sel_acidic =
     Inr \<lparr>universe = uid u,
          ix = filter (\<lambda>i. acidic_oxygen (atoms u ! i)) [0..<length (atoms u)]\<rparr>"
  by (simp only: select_atoms_def parse_sel_acidic option.case apply_sel_acidic)

lemma product_map_filter:
  "length (filter (\<lambda>(p, q). P p q) (List.product (map f xs) (map g ys))) =
   length (filter (\<lambda>(i, j). P (f i) (g j)) (List.product xs ys))"
proof (induction xs)
  case Nil
  show ?case by simp
next
  case (Cons x xs)
  have "length (filter (\<lambda>(p, q). P p q) (map (Pair (f x)) (map g ys))) =
      length (filter (\<lambda>(i, j). P (f i) (g j)) (map (Pair x) ys))"
    by (induction ys) simp_all
  with Cons.IH show ?case by simp
qed

lemma contact_count_pairs:
  "contact_count d (positions st ga) (positions st gb) radius =
     int (length (contact_pairs d st ga gb radius))"
  unfolding contact_count_def contact_pairs_def positions_def
  by (simp only: product_map_filter [where P = "\<lambda>p q. d p q \<le> radius"])

lemma contact_pairs_members:
  assumes "(i, j) \<in> set (contact_pairs d st ga gb radius)"
  shows "i \<in> set (ix ga) \<and> j \<in> set (ix gb)"
  using assms by (auto simp add: contact_pairs_def)


text \<open>
  C5: the selection \<^verbatim>\<open>(resname ARG LYS) and (name NH* NZ)\<close> matches exactly the atoms of
  residues ARG or LYS whose names start with NH or equal NZ, and
  \<^verbatim>\<open>(resname ASP GLU) and (name OE* OD*)\<close> exactly the atoms of residues ASP or GLU whose
  names start with OE or OD (by the naming of atoms, nitrogens of basic residues and oxygens
  of acidic residues); and every contact counted by the salt-bridge analysis pairs an atom
  of the second kind with an atom of the first.
\<close>

theorem salt_bridge_selections:
  "\<exists>acidic basic.
     select_atoms u sel_acidic = Inr acidic \<and> select_atoms u sel_basic = Inr basic \<and>
     (\<forall>i. i \<in> set (ix basic) \<longleftrightarrow> i < length (atoms u) \<and> basic_nitrogen (atoms u ! i)) \<and>
     (\<forall>i. i \<in> set (ix acidic) \<longleftrightarrow> i < length (atoms u) \<and> acidic_oxygen (atoms u ! i)) \<and>
     salt_bridges d st u radius = Inr (contacts_within_cutoff d st u acidic basic radius) \<and>
     (\<forall>k < length (trajectory u).
        entries (contacts_within_cutoff d st u acidic basic radius) ! k ! 1 =
          int (length (contact_pairs d (st(uid u := trajectory u ! k)) acidic basic radius)) \<and>
        (\<forall>(i, j) \<in> set (contact_pairs d (st(uid u := trajectory u ! k)) acidic basic radius).
           acidic_oxygen (atoms u ! i) \<and> basic_nitrogen (atoms u ! j)))"
proof -
  let ?acidic = "\<lparr>universe = uid u,
      ix = filter (\<lambda>i. acidic_oxygen (atoms u ! i)) [0..<length (atoms u)]\<rparr>"
  let ?basic = "\<lparr>universe = uid u,
      ix = filter (\<lambda>i. basic_nitrogen (atoms u ! i)) [0..<length (atoms u)]\<rparr>"
  have a: "select_atoms u sel_acidic = Inr ?acidic" by (rule select_atoms_acidic)
  have b: "select_atoms u sel_basic = Inr ?basic" by (rule select_atoms_basic)
  have mb: "\<forall>i. i \<in> set (ix ?basic) \<longleftrightarrow> i < length (atoms u) \<and> basic_nitrogen (atoms u ! i)"
    by auto
  have ma: "\<forall>i. i \<in> set (ix ?acidic) \<longleftrightarrow> i < length (atoms u) \<and> acidic_oxygen (atoms u ! i)"
    by auto
  have sb: "salt_bridges d st u radius =
      Inr (contacts_within_cutoff d st u ?acidic ?basic radius)"
    by (simp add: salt_bridges_def a b)
  have rows: "\<forall>k < length (trajectory u).
        entries (contacts_within_cutoff d st u ?acidic ?basic radius) ! k ! 1 =
          int (length (contact_pairs d (st(uid u := trajectory u ! k)) ?acidic ?basic radius)) \<and>
        (\<forall>(i, j) \<in> set (contact_pairs d (st(uid u := trajectory u ! k)) ?acidic ?basic radius).
           acidic_oxygen (atoms u ! i) \<and> basic_nitrogen (atoms u ! j))"
  proof (intro allI impI conjI)
    fix k
    assume k: "k < length (trajectory u)"
    then have ne: "trajectory u \<noteq> []" by auto
    from k ne show "entries (contacts_within_cutoff d st u ?acidic ?basic radius) ! k ! 1 =
        int (length (contact_pairs d (st(uid u := trajectory u ! k)) ?acidic ?basic radius))"
      by (simp add: contacts_within_cutoff_eq n_contacts_at_count contact_count_pairs)
    show "\<forall>(i, j) \<in> set (contact_pairs d (st(uid u := trajectory u ! k)) ?acidic ?basic radius).
        acidic_oxygen (atoms u ! i) \<and> basic_nitrogen (atoms u ! j)"
    proof (clarify)
      fix i j
      assume "(i, j) \<in> set (contact_pairs d (st(uid u := trajectory u ! k)) ?acidic ?basic radius)"
      then have "i \<in> set (ix ?acidic) \<and> j \<in> set (ix ?basic)"
        by (rule contact_pairs_members)
      then show "acidic_oxygen (atoms u ! i) \<and> basic_nitrogen (atoms u ! j)"
        by simp
    qed
  qed
  from a b mb ma sb rows show ?thesis by blast
qed

lemma select_example_acidic: "select_atoms example_universe sel_acidic = Inr example_group_a"
  by (simp add: select_atoms_acidic acidic_oxygen_def example_universe_def example_atoms_def
      example_group_a_def upt_rec [of 0] upt_rec [of 1] upt_rec [of 2] upt_rec [of 3])

lemma select_example_basic: "select_atoms example_universe sel_basic = Inr example_group_b"
  by (simp add: select_atoms_basic basic_nitrogen_def example_universe_def example_atoms_def
      example_group_b_def upt_rec [of 0] upt_rec [of 1] upt_rec [of 2] upt_rec [of 3])

theorem salt_bridge_selections_witness:
  "select_atoms example_universe sel_acidic = Inr example_group_a \<and>
   select_atoms example_universe sel_basic = Inr example_group_b \<and>
   (1::nat) < length (trajectory example_universe) \<and>
   contact_pairs example_dist (example_store(0 := example_frame0))
     example_group_a example_group_b 3 = [(0, 1)] \<and>
   acidic_oxygen (atoms example_universe ! 0) \<and> basic_nitrogen (atoms example_universe ! 1) \<and>
   salt_bridges example_dist example_store example_universe 3 =
     Inr \<lparr>shape = [2, 2], entries = [[0, 1], [1, 0]]\<rparr>"
proof -
  have len: "(1::nat) < length (trajectory example_universe)"
    by (simp add: example_defs)
  have pairs: "contact_pairs example_dist (example_store(0 := example_frame0))
     example_group_a example_group_b 3 = [(0, 1)]"
    by (simp add: contact_pairs_def example_defs)
  have names: "acidic_oxygen (atoms example_universe ! 0)"
    "basic_nitrogen (atoms example_universe ! 1)"
    by (simp_all add: acidic_oxygen_def basic_nitrogen_def example_universe_def
        example_atoms_def)
  have val: "contacts_within_cutoff example_dist example_store example_universe
      example_group_a example_group_b 3 = \<lparr>shape = [2, 2], entries = [[0, 1], [1, 0]]\<rparr>"
    by (simp add: contacts_within_cutoff_def np_array_def Let_def matrix_sum_def
        contact_matrix_def distance_array_def positions_def example_defs)
  from salt_bridge_selections [of example_universe example_dist example_store 3]
  have "salt_bridges example_dist example_store example_universe 3 =
      Inr (contacts_within_cutoff example_dist example_store example_universe
        example_group_a example_group_b 3)"
    by (simp add: select_example_acidic select_example_basic)
  with val len pairs names select_example_acidic select_example_basic show ?thesis
    by simp
qed


section \<open>The time series of the analysis class\<close>

lemma distance_array_shape:
  "map length (distance_array d ps qs) = replicate (length ps) (length qs)"
  by (induction ps) (simp_all add: distance_array_def)

lemma contact_matrix_shape:
  "map length (contact_matrix dm radius) = map length dm"
  by (simp add: contact_matrix_def)

lemma positions_length: "length (positions st g) = length (ix g)"
  by (simp add: positions_def)

lemma boolean_index_same_shape:
  assumes "map length dm = map length flags"
  shows "boolean_index dm flags = Inr (masked dm flags)"
  using assms by (simp add: boolean_index_def)

lemma Contacts_frames_eq:
  assumes flags: "map length (initial_contacts c) =
      replicate (length (ix (grA c))) (length (ix (grB c)))"
    and ref: "map length (ref_distances c) = map length (initial_contacts c)"
  shows "Contacts_frames d c st tss acc =
    Inr (acc @ map (\<lambda>ts. (frame ts, fraction_contacts c
        (masked (distance_array d (positions (st(uid (c_universe c) := ts)) (grA c))
            (positions (st(uid (c_universe c) := ts)) (grB c))) (initial_contacts c))
        (masked (ref_distances c) (initial_contacts c)) (fraction_kwargs c))) tss)"
proof (induction tss arbitrary: st acc)
  case Nil
  show ?case by simp
next
  case (Cons ts rest)
  let ?st = "st(uid (c_universe c) := ts)"
  let ?dm = "distance_array d (positions ?st (grA c)) (positions ?st (grB c))"
  have "map length ?dm = map length (initial_contacts c)"
    by (simp only: distance_array_shape positions_length flags)
  then have r: "boolean_index ?dm (initial_contacts c) = Inr (masked ?dm (initial_contacts c))"
    by (rule boolean_index_same_shape)
  have r0: "boolean_index (ref_distances c) (initial_contacts c) =
      Inr (masked (ref_distances c) (initial_contacts c))"
    using ref by (rule boolean_index_same_shape)
  have "Contacts_frames d c st (ts # rest) acc =
      Contacts_frames d c ?st rest (acc @ [(frame ts, fraction_contacts c
        (masked ?dm (initial_contacts c)) (masked (ref_distances c) (initial_contacts c))
        (fraction_kwargs c))])"
    by (simp only: Contacts_frames.simps Let_def r r0 sum.case)
  also have "\<dots> = Inr ((acc @ [(frame ts, fraction_contacts c
        (masked ?dm (initial_contacts c)) (masked (ref_distances c) (initial_contacts c))
        (fraction_kwargs c))]) @
      map (\<lambda>t. (frame t, fraction_contacts c
        (masked (distance_array d (positions (?st(uid (c_universe c) := t)) (grA c))
            (positions (?st(uid (c_universe c) := t)) (grB c))) (initial_contacts c))
        (masked (ref_distances c) (initial_contacts c)) (fraction_kwargs c))) rest)"
    by (rule Cons.IH)
  finally show ?case
    by (simp only: fun_upd_upd list.map append_assoc append_Cons append_Nil)
qed

text \<open>
  C4: the analysis class, invoked as in the custom-method notebook (the two selection
  strings, the reference pair (acidic, basic), radius 5.0, the scoring function
  \<open>fraction_contacts_between\<close> and the keyword arguments radius 5.0 and min_radius 2.4),
  produces after \<open>run()\<close> a time series with one row per trajectory frame; the first entry
  of row \<open>k\<close> is the frame index of the \<open>k\<close>-th frame and the second is the score the scoring
  function returns for the distances of that frame.
\<close>

theorem notebook_timeseries_rows:
  "\<exists>acidic basic ts.
     select_atoms u sel_acidic = Inr acidic \<and> select_atoms u sel_basic = Inr basic \<and>
     notebook_timeseries d st u = Inr ts \<and> length ts = length (trajectory u) \<and>
     (\<forall>k < length (trajectory u). \<exists>r ref.
        boolean_index
          (distance_array d (positions (st(uid u := trajectory u ! k)) acidic)
             (positions (st(uid u := trajectory u ! k)) basic))
          (contact_matrix (distance_array d (positions st acidic) (positions st basic)) 5)
          = Inr r \<and>
        boolean_index (distance_array d (positions st acidic) (positions st basic))
          (contact_matrix (distance_array d (positions st acidic) (positions st basic)) 5)
          = Inr ref \<and>
        ts ! k = (frame (trajectory u ! k), fraction_contacts_between r ref 5 2.4))"
proof -
  obtain acidic basic where a: "select_atoms u sel_acidic = Inr acidic"
    and b: "select_atoms u sel_basic = Inr basic"
    using select_atoms_acidic select_atoms_basic by blast
  let ?ref = "distance_array d (positions st acidic) (positions st basic)"
  let ?flags = "contact_matrix ?ref 5"
  let ?c = "\<lparr>c_universe = u, grA = acidic, grB = basic, ref_distances = ?ref,
      initial_contacts = ?flags, fraction_contacts = call_fraction_contacts_between,
      fraction_kwargs = \<lparr>kw_radius = Some 5.0, kw_min_radius = Some 2.4\<rparr>\<rparr>"
  let ?dm = "\<lambda>ts. distance_array d (positions (st(uid u := ts)) acidic)
      (positions (st(uid u := ts)) basic)"
  let ?row = "\<lambda>ts. (frame ts, fraction_contacts_between (masked (?dm ts) ?flags)
      (masked ?ref ?flags) 5 2.4)"
  have init: "Contacts_init d st u (sel_acidic, sel_basic) (acidic, basic)
      call_fraction_contacts_between 5.0
      \<lparr>kw_radius = Some 5.0, kw_min_radius = Some 2.4\<rparr> = Inr ?c"
    by (simp add: Contacts_init_def a b Let_def)
  have flags: "map length (initial_contacts ?c) =
      replicate (length (ix (grA ?c))) (length (ix (grB ?c)))"
    by (simp add: contact_matrix_shape distance_array_shape positions_length)
  have ref: "map length (ref_distances ?c) = map length (initial_contacts ?c)"
    by (simp add: contact_matrix_shape)
  have run: "Contacts_run d st ?c = Inr (map ?row (trajectory u))"
    unfolding Contacts_run_def Contacts_frames_eq [OF flags ref]
    by (simp add: call_fraction_contacts_between_def)
  have ts: "notebook_timeseries d st u = Inr (map ?row (trajectory u))"
    by (simp only: notebook_timeseries_def a b init run sum.case)
  have shape_k: "\<And>ts. map length (?dm ts) = map length ?flags"
    by (simp add: contact_matrix_shape distance_array_shape positions_length)
  have rows: "\<forall>k < length (trajectory u). \<exists>r ref.
        boolean_index (?dm (trajectory u ! k)) ?flags = Inr r \<and>
        boolean_index ?ref ?flags = Inr ref \<and>
        map ?row (trajectory u) ! k =
          (frame (trajectory u ! k), fraction_contacts_between r ref 5 2.4)"
  proof (intro allI impI)
    fix k
    assume k: "k < length (trajectory u)"
    have r: "boolean_index (?dm (trajectory u ! k)) ?flags =
        Inr (masked (?dm (trajectory u ! k)) ?flags)"
      using shape_k by (rule boolean_index_same_shape)
    have r0: "boolean_index ?ref ?flags = Inr (masked ?ref ?flags)"
      by (rule boolean_index_same_shape) (simp add: contact_matrix_shape)
    from k have "map ?row (trajectory u) ! k = ?row (trajectory u ! k)"
      by (rule nth_map)
    with r r0 show "\<exists>r ref.
        boolean_index (?dm (trajectory u ! k)) ?flags = Inr r \<and>
        boolean_index ?ref ?flags = Inr ref \<and>
        map ?row (trajectory u) ! k =
          (frame (trajectory u ! k), fraction_contacts_between r ref 5 2.4)"
      by blast
  qed
  have len: "length (map ?row (trajectory u)) = length (trajectory u)" by simp
  from a b ts len rows show ?thesis by blast
qed

theorem notebook_timeseries_rows_witness:
  "(1::nat) < length (trajectory example_universe) \<and>
   notebook_timeseries example_dist_rat example_store example_universe =
     Inr [(0, Finite 1), (1, Finite 0)]"
proof -
  have len: "(1::nat) < length (trajectory example_universe)"
    by (simp add: example_defs)
  obtain acidic basic ts where a: "select_atoms example_universe sel_acidic = Inr acidic"
    and b: "select_atoms example_universe sel_basic = Inr basic"
    and ts: "notebook_timeseries example_dist_rat example_store example_universe = Inr ts"
    and n: "length ts = length (trajectory example_universe)"
    and rows: "\<forall>k < length (trajectory example_universe). \<exists>r ref.
        boolean_index
          (distance_array example_dist_rat
             (positions (example_store(uid example_universe := trajectory example_universe ! k))
                acidic)
             (positions (example_store(uid example_universe := trajectory example_universe ! k))
                basic))
          (contact_matrix (distance_array example_dist_rat (positions example_store acidic)
             (positions example_store basic)) 5)
          = Inr r \<and>
        boolean_index (distance_array example_dist_rat (positions example_store acidic)
             (positions example_store basic))
          (contact_matrix (distance_array example_dist_rat (positions example_store acidic)
             (positions example_store basic)) 5)
          = Inr ref \<and>
        ts ! k = (frame (trajectory example_universe ! k),
                  fraction_contacts_between r ref 5 2.4)"
    using notebook_timeseries_rows [of example_universe example_dist_rat example_store]
    by blast
  from a b have groups: "acidic = example_group_a" "basic = example_group_b"
    by (simp_all add: select_example_acidic select_example_basic)
  have two: "length ts = 2"
    using n by (simp add: example_defs)
  have r0: "ts ! 0 = (0, Finite 1)"
    using rows [rule_format, of 0] len
    by (auto simp add: groups boolean_index_def masked_def contact_matrix_def
        distance_array_def positions_def fraction_contacts_between_def true_divide_def array_sum_def
        example_defs example_dist_rat_def)
  have r1: "ts ! 1 = (1, Finite 0)"
    using rows [rule_format, of 1] len
    by (auto simp add: groups boolean_index_def masked_def contact_matrix_def
        distance_array_def positions_def fraction_contacts_between_def true_divide_def array_sum_def
        example_defs example_dist_rat_def)
  from two r0 r1 have "ts = [(0, Finite 1), (1, Finite 0)]"
    by (cases ts; cases "tl ts") auto
  with ts len show ?thesis by simp
qed


end
